theory Spec2Isabelle
  imports Complex_Main
begin

section \<open>JavaScript values used by the history records\<close>

text \<open>
  The history module types several fields as \<open>any\<close> or \<open>Record<string, any>\<close>.
  They are modelled by a small JSON value type; an object is an association list in
  property order. Numbers are exact rationals.
\<close>

datatype jsval =
    JNull
  | JBool bool
  | JNum rat
  | JStr string
  | JArr "jsval list"
  | JObj "(string \<times> jsval) list"

type_synonym jsobj = "(string \<times> jsval) list"

text \<open>Property assignment \<open>o[k] = v\<close>: an existing key keeps its place, a new key goes last.\<close>

fun set_prop :: "string \<Rightarrow> jsval \<Rightarrow> jsobj \<Rightarrow> jsobj" where
  "set_prop k v [] = [(k, v)]"
| "set_prop k v (p # ps) = (if fst p = k then (k, v) # ps else p # set_prop k v ps)"

text \<open>Object spread \<open>{...target, ...src}\<close> onto an object already built.\<close>

fun spread :: "jsobj \<Rightarrow> jsobj \<Rightarrow> jsobj" where
  "spread target [] = target"
| "spread target (p # ps) = spread (set_prop (fst p) (snd p) target) ps"

text \<open>Truthiness of a string and of an optional string (\<open>undefined\<close> is \<open>None\<close>).\<close>

definition truthy_str :: "string \<Rightarrow> bool" where
  "truthy_str s = (s \<noteq> [])"

definition truthy_opt :: "string option \<Rightarrow> bool" where
  "truthy_opt s = (case s of None \<Rightarrow> False | Some t \<Rightarrow> truthy_str t)"

text \<open>Decimal rendering of a natural number, as a template literal prints it.\<close>

definition digit_char :: "nat \<Rightarrow> char" where
  "digit_char d = char_of (48 + d)"

fun string_of_nat :: "nat \<Rightarrow> string" where
  "string_of_nat n =
     (if n < 10 then [digit_char n] else string_of_nat (n div 10) @ [digit_char (n mod 10)])"

declare string_of_nat.simps [simp del]

section \<open>The history entry (\<open>UniversalHistoryEntry\<close>)\<close>

datatype operation_type =
    product_create | product_update | product_delete | bulk_upload
  | bulk_price_update | bulk_discount | image_upload | collection_update

fun operation_type_name :: "operation_type \<Rightarrow> string" where
  "operation_type_name product_create = ''product_create''"
| "operation_type_name product_update = ''product_update''"
| "operation_type_name product_delete = ''product_delete''"
| "operation_type_name bulk_upload = ''bulk_upload''"
| "operation_type_name bulk_price_update = ''bulk_price_update''"
| "operation_type_name bulk_discount = ''bulk_discount''"
| "operation_type_name image_upload = ''image_upload''"
| "operation_type_name collection_update = ''collection_update''"

datatype category = Product | Pricing | Images | Bulk | Collections

fun category_name :: "category \<Rightarrow> string" where
  "category_name Product = ''product''"
| "category_name Pricing = ''pricing''"
| "category_name Images = ''images''"
| "category_name Bulk = ''bulk''"
| "category_name Collections = ''collections''"

datatype status = Success | Error | Warning | Pending

fun status_name :: "status \<Rightarrow> string" where
  "status_name Success = ''success''"
| "status_name Error = ''error''"
| "status_name Warning = ''warning''"
| "status_name Pending = ''pending''"

datatype rollback_type = api_call | batch_operation | file_restore

record operationData =
  action :: string
  oldValues :: "jsobj option"
  newValues :: "jsobj option"
  affectedCount :: "nat option"
  batchId :: "string option"
  parentBatchId :: "string option"

record rollbackData =
  canRollback :: bool
  rollbackType :: rollback_type
  rollbackPayload :: "jsval option"
  dependencies :: "string list option"

record bulkOperationSummary =
  totalItems :: nat
  successfulItems :: nat
  failedItems :: nat
  summaryOperationType :: string

text \<open>
  \<open>originalEntryId\<close> is not in the interface; \<open>rollbackOperation\<close> adds it to the
  metadata object it spreads.
\<close>

record metadata =
  duration :: "rat option"
  errorDetails :: "string option"
  affectedProducts :: "string list option"
  affectedVariants :: "string list option"
  fileNames :: "string list option"
  imageUrls :: "string list option"
  bulkOperationSummary :: "bulkOperationSummary option"
  originalEntryId :: "string option"

definition empty_metadata :: metadata where
  "empty_metadata = \<lparr> duration = None, errorDetails = None, affectedProducts = None,
     affectedVariants = None, fileNames = None, imageUrls = None,
     bulkOperationSummary = None, originalEntryId = None \<rparr>"

text \<open>The field \<open>id\<close> is named \<open>id_e\<close>: \<open>id\<close> is the identity function of HOL.\<close>

record entry =
  id_e :: string
  timestamp :: string
  operationType :: operation_type
  category :: category
  productId :: "string option"
  productTitle :: "string option"
  variantId :: "string option"
  variantTitle :: "string option"
  sku :: "string option"
  collectionId :: "string option"
  collectionTitle :: "string option"
  description :: string
  status :: status
  operationData :: operationData
  rollbackData :: "rollbackData option"
  userAgent :: "string option"
  ipAddress :: "string option"
  sessionId :: "string option"
  metadata :: "metadata option"

section \<open>The store and \<open>createEntry\<close>\<close>

text \<open>
  The manager keeps the whole history under one \<open>localStorage\<close> key, as the JSON text of
  an array, newest entry first. The model's store is the array \<open>getAllEntries\<close> reads
  back (the empty array when the key is absent or its text does not parse), with its
  elements typed as the source casts them. A write to \<open>localStorage\<close> is taken to
  succeed: \<open>saveEntry\<close> catches a failed write and only logs it, so a full or disabled
  storage loses the entry, and that case is outside the model.
\<close>

type_synonym store = "entry list"

definition MAX_ENTRIES :: nat where
  "MAX_ENTRIES = 5000"

definition getAllEntries :: "store \<Rightarrow> entry list" where
  "getAllEntries s = s"

text \<open>\<open>saveEntry\<close>: \<open>unshift\<close>, then \<open>slice(0, MAX_ENTRIES)\<close>.\<close>

definition saveEntry :: "entry \<Rightarrow> store \<Rightarrow> store" where
  "saveEntry e s = take MAX_ENTRIES (e # getAllEntries s)"

text \<open>
  What one call reads from the clock and the random generator: \<open>Date.now()\<close>, the nine
  base-36 characters cut from \<open>Math.random()\<close>, and \<open>new Date().toISOString()\<close>.
\<close>

record stamp =
  now :: nat
  rnd :: string
  iso :: string

definition hist_id :: "stamp \<Rightarrow> string" where
  "hist_id st = ''hist_'' @ string_of_nat (now st) @ ''_'' @ rnd st"

definition batch_id :: "stamp \<Rightarrow> string" where
  "batch_id st = ''batch_'' @ string_of_nat (now st) @ ''_'' @ rnd st"

text \<open>
  \<open>createEntry\<close> takes an entry without \<open>id\<close> and \<open>timestamp\<close>
  (\<open>Omit<UniversalHistoryEntry, "id" | "timestamp">\<close>); the model passes a whole record
  and overwrites the two fields.
\<close>

definition createEntry :: "stamp \<Rightarrow> entry \<Rightarrow> store \<Rightarrow> entry \<times> store" where
  "createEntry st e s =
     (let historyEntry = e\<lparr> id_e := hist_id st, timestamp := iso st \<rparr>
      in (historyEntry, saveEntry historyEntry s))"

section \<open>\<open>createBulkOperation\<close>\<close>

text \<open>An element of \<open>affectedItems\<close>.\<close>

record affected_item =
  i_productId :: string
  i_productTitle :: string
  i_variantId :: "string option"
  i_variantTitle :: "string option"
  i_sku :: "string option"
  i_oldValues :: jsobj
  i_newValues :: jsobj

text \<open>Truthiness of a value typed \<open>any\<close>.\<close>

fun truthy_val :: "jsval \<Rightarrow> bool" where
  "truthy_val JNull = False"
| "truthy_val (JBool b) = b"
| "truthy_val (JNum n) = (n \<noteq> 0)"
| "truthy_val (JStr s) = truthy_str s"
| "truthy_val (JArr xs) = True"
| "truthy_val (JObj ps) = True"

definition truthy_any :: "jsval option \<Rightarrow> bool" where
  "truthy_any v = (case v of None \<Rightarrow> False | Some w \<Rightarrow> truthy_val w)"

text \<open>The argument of the first \<open>createEntry\<close> call: the main bulk operation entry.\<close>

definition main_entry_input ::
  "operation_type \<Rightarrow> category \<Rightarrow> string \<Rightarrow> affected_item list \<Rightarrow> jsval option \<Rightarrow> string \<Rightarrow> entry"
where
  "main_entry_input opType cat descr affectedItems payload bId =
     \<lparr> id_e = [], timestamp = [],
       operationType = opType,
       category = cat,
       productId = None, productTitle = None, variantId = None, variantTitle = None,
       sku = None, collectionId = None, collectionTitle = None,
       description = descr @ '' ('' @ string_of_nat (length affectedItems) @ '' items)'',
       status = Success,
       operationData = \<lparr> action = ''bulk_operation'', oldValues = None, newValues = None,
         affectedCount = Some (length affectedItems), batchId = Some bId,
         parentBatchId = None \<rparr>,
       rollbackData =
         (if truthy_any payload
          then Some \<lparr> canRollback = True, rollbackType = batch_operation,
                 rollbackPayload = payload, dependencies = None \<rparr>
          else None),
       userAgent = None, ipAddress = None, sessionId = None,
       metadata = Some (empty_metadata
         \<lparr> bulkOperationSummary := Some \<lparr> totalItems = length affectedItems,
              successfulItems = length affectedItems, failedItems = 0,
              summaryOperationType = operation_type_name opType \<rparr>,
           affectedProducts := Some (map i_productId affectedItems),
           affectedVariants := Some (map the (filter truthy_opt (map i_variantId affectedItems))) \<rparr>) \<rparr>"

text \<open>The argument of the \<open>createEntry\<close> call made for one item.\<close>

definition individual_entry_input ::
  "operation_type \<Rightarrow> category \<Rightarrow> string \<Rightarrow> string \<Rightarrow> affected_item \<Rightarrow> entry"
where
  "individual_entry_input opType cat descr bId item =
     \<lparr> id_e = [], timestamp = [],
       operationType = opType,
       category = cat,
       productId = Some (i_productId item),
       productTitle = Some (i_productTitle item),
       variantId = i_variantId item,
       variantTitle = i_variantTitle item,
       sku = i_sku item,
       collectionId = None, collectionTitle = None,
       description = descr @ '': '' @ i_productTitle item @
         (if truthy_opt (i_variantTitle item) then '' - '' @ the (i_variantTitle item) else []),
       status = Success,
       operationData = \<lparr> action = ''individual_item_in_bulk'',
         oldValues = Some (i_oldValues item), newValues = Some (i_newValues item),
         affectedCount = None, batchId = Some bId, parentBatchId = Some bId \<rparr>,
       rollbackData = Some \<lparr> canRollback = True, rollbackType = api_call,
         rollbackPayload = Some (JObj (spread
           [(''id'', JStr (if truthy_opt (i_variantId item) then the (i_variantId item)
                           else i_productId item))]
           (i_oldValues item))),
         dependencies = None \<rparr>,
       userAgent = None, ipAddress = None, sessionId = None,
       metadata = None \<rparr>"

text \<open>
  The \<open>forEach\<close> over the items. \<open>stamps k\<close> is what the \<open>k\<close>-th reading of clock and
  random generator of the whole call returns; call 0 makes the batch id, call 1 the main
  entry, call \<open>k + 2\<close> the entry of item \<open>k\<close>.
\<close>

fun individual_entries ::
  "(nat \<Rightarrow> stamp) \<Rightarrow> nat \<Rightarrow> operation_type \<Rightarrow> category \<Rightarrow> string \<Rightarrow> string \<Rightarrow>
   affected_item list \<Rightarrow> entry list \<Rightarrow> store \<Rightarrow> entry list \<times> store"
where
  "individual_entries stamps k opType cat descr bId [] entries s = (entries, s)"
| "individual_entries stamps k opType cat descr bId (item # items) entries s =
     (let (individualEntry, s') =
            createEntry (stamps k) (individual_entry_input opType cat descr bId item) s
      in individual_entries stamps (Suc k) opType cat descr bId items
           (entries @ [individualEntry]) s')"

record bulk_result =
  r_batchId :: string
  r_entries :: "entry list"

definition createBulkOperation ::
  "(nat \<Rightarrow> stamp) \<Rightarrow> operation_type \<Rightarrow> category \<Rightarrow> string \<Rightarrow> affected_item list \<Rightarrow>
   jsval option \<Rightarrow> store \<Rightarrow> bulk_result \<times> store"
where
  "createBulkOperation stamps opType cat descr affectedItems payload s =
     (let bId = batch_id (stamps 0);
          (mainEntry, s1) =
            createEntry (stamps 1) (main_entry_input opType cat descr affectedItems payload bId) s;
          (entries, s2) =
            individual_entries stamps 2 opType cat descr bId affectedItems [mainEntry] s1
      in (\<lparr> r_batchId = bId, r_entries = entries \<rparr>, s2))"

definition createBulkHistoryEntry ::
  "(nat \<Rightarrow> stamp) \<Rightarrow> operation_type \<Rightarrow> category \<Rightarrow> string \<Rightarrow> affected_item list \<Rightarrow>
   jsval option \<Rightarrow> store \<Rightarrow> bulk_result \<times> store"
where
  "createBulkHistoryEntry = createBulkOperation"

section \<open>Queries\<close>

record HistoryFilter =
  f_category :: "string option"
  f_operationType :: "string option"
  f_status :: "string option"
  f_dateRange :: "(string \<times> string) option"
  f_productId :: "string option"
  f_searchTerm :: "string option"
  f_batchId :: "string option"

fun starts_with :: "string \<Rightarrow> string \<Rightarrow> bool" where
  "starts_with s [] = True"
| "starts_with [] (c # t) = False"
| "starts_with (d # s) (c # t) = (d = c \<and> starts_with s t)"

text \<open>\<open>s.includes(t)\<close>.\<close>

fun includes_str :: "string \<Rightarrow> string \<Rightarrow> bool" where
  "includes_str [] t = starts_with [] t"
| "includes_str (d # s) t = (starts_with (d # s) t \<or> includes_str s t)"

text \<open>\<open>x?.toLowerCase().includes(term)\<close> on an optional field: \<open>undefined\<close> is falsy.\<close>

definition opt_includes :: "(string \<Rightarrow> string) \<Rightarrow> string option \<Rightarrow> string \<Rightarrow> bool" where
  "opt_includes lower x term = (case x of None \<Rightarrow> False | Some v \<Rightarrow> includes_str (lower v) term)"

definition matches_product :: "string \<Rightarrow> entry \<Rightarrow> bool" where
  "matches_product pid e =
     (productId e = Some pid \<or>
      (case metadata e of None \<Rightarrow> False
       | Some m \<Rightarrow> (case affectedProducts m of None \<Rightarrow> False | Some ps \<Rightarrow> pid \<in> set ps)))"

definition matches_batch :: "string \<Rightarrow> entry \<Rightarrow> bool" where
  "matches_batch b e =
     (batchId (operationData e) = Some b \<or> parentBatchId (operationData e) = Some b)"

text \<open>
  A date comparison with an invalid date is false; \<open>dateOf\<close> is \<open>new Date(s).getTime()\<close>,
  \<open>None\<close> for an invalid date.
\<close>

definition in_range :: "(string \<Rightarrow> int option) \<Rightarrow> string \<times> string \<Rightarrow> entry \<Rightarrow> bool" where
  "in_range dateOf r e =
     (case (dateOf (timestamp e), dateOf (fst r), dateOf (snd r)) of
        (Some d, Some a, Some b) \<Rightarrow> a \<le> d \<and> d \<le> b
      | _ \<Rightarrow> False)"

text \<open>
  \<open>getFilteredEntries\<close>: one \<open>filter\<close> pass for each filter field that is truthy.
  \<open>lower\<close> is \<open>String.prototype.toLowerCase\<close>.
\<close>

definition getFilteredEntries ::
  "(string \<Rightarrow> string) \<Rightarrow> (string \<Rightarrow> int option) \<Rightarrow> HistoryFilter \<Rightarrow> store \<Rightarrow> entry list"
where
  "getFilteredEntries lower dateOf flt s =
     (let entries = getAllEntries s;
          entries = (if truthy_opt (f_category flt)
                     then filter (\<lambda>e. Some (category_name (category e)) = f_category flt) entries
                     else entries);
          entries = (if truthy_opt (f_operationType flt)
                     then filter (\<lambda>e. Some (operation_type_name (operationType e)) = f_operationType flt) entries
                     else entries);
          entries = (if truthy_opt (f_status flt)
                     then filter (\<lambda>e. Some (status_name (status e)) = f_status flt) entries
                     else entries);
          entries = (if truthy_opt (f_productId flt)
                     then filter (matches_product (the (f_productId flt))) entries
                     else entries);
          entries = (if truthy_opt (f_batchId flt)
                     then filter (matches_batch (the (f_batchId flt))) entries
                     else entries);
          entries = (if truthy_opt (f_searchTerm flt)
                     then (let term = lower (the (f_searchTerm flt))
                           in filter (\<lambda>e. includes_str (lower (description e)) term \<or>
                                          opt_includes lower (productTitle e) term \<or>
                                          opt_includes lower (sku e) term) entries)
                     else entries);
          entries = (case f_dateRange flt of
                       None \<Rightarrow> entries
                     | Some r \<Rightarrow> filter (in_range dateOf r) entries)
      in entries)"

definition getProductHistory :: "string \<Rightarrow> store \<Rightarrow> entry list" where
  "getProductHistory pid s = filter (matches_product pid) (getAllEntries s)"

definition getBatchHistory :: "string \<Rightarrow> store \<Rightarrow> entry list" where
  "getBatchHistory b s = filter (matches_batch b) (getAllEntries s)"

definition getBulkOperations :: "store \<Rightarrow> entry list" where
  "getBulkOperations s = filter (\<lambda>e. action (operationData e) = ''bulk_operation'') (getAllEntries s)"

text \<open>
  \<open>getBulkOperationItems\<close> is also called with \<open>entry.operationData.batchId!\<close>, which may be
  \<open>undefined\<close>: the argument is optional, and \<open>undefined === undefined\<close> holds.
\<close>

definition getBulkOperationItems :: "string option \<Rightarrow> store \<Rightarrow> entry list" where
  "getBulkOperationItems b s = filter (\<lambda>e. parentBatchId (operationData e) = b) (getAllEntries s)"

section \<open>Rollback\<close>

record RollbackResult =
  success :: bool
  message :: string
  affectedEntries :: "string list"
  errors :: "string list option"

text \<open>
  A thrown value: an \<open>Error\<close> object with its name and message, or something that is not
  an \<open>Error\<close>, with its string form.
\<close>

datatype exn = ErrorObj string string | NonError string

fun exn_message :: "exn \<Rightarrow> string option" where
  "exn_message (ErrorObj n m) = Some m"
| "exn_message (NonError v) = None"

text \<open>\<open>`${error}`\<close>.\<close>

fun exn_string :: "exn \<Rightarrow> string" where
  "exn_string (ErrorObj n m) = (if m = [] then n else n @ '': '' @ m)"
| "exn_string (NonError v) = v"

text \<open>
  The remote store. A request is the URL, the method and the body that is stringified;
  \<open>fetch\<close> either rejects or resolves to a response, of which the code reads \<open>ok\<close> only.
  The remote store is a parameter: \<open>remote k req\<close> is the outcome of the request made
  for the \<open>k\<close>-th entry that one rollback handles.
\<close>

record request =
  url :: string
  http_method :: string
  body :: "jsval option"

datatype fetch_result = Rejected exn | Response bool

type_synonym remote = "nat \<Rightarrow> request \<Rightarrow> fetch_result"

definition rollback_call ::
  "remote \<Rightarrow> nat \<Rightarrow> string \<Rightarrow> string \<Rightarrow> jsval option \<Rightarrow> string \<Rightarrow> string \<Rightarrow> entry \<Rightarrow>
   exn + RollbackResult"
where
  "rollback_call rem k u m payload okMessage failMessage e =
     (case rem k \<lparr> url = u, http_method = m, body = payload \<rparr> of
        Rejected x \<Rightarrow> Inl x
      | Response ok \<Rightarrow>
          if ok
          then Inr \<lparr> success = True, message = okMessage, affectedEntries = [id_e e],
                     errors = None \<rparr>
          else Inl (ErrorObj ''Error'' failMessage))"

text \<open>
  \<open>executeApiRollback\<close>. Destructuring \<open>entry.rollbackData!\<close> throws a \<open>TypeError\<close> when
  the entry has no rollback data.
\<close>

definition executeApiRollback :: "remote \<Rightarrow> nat \<Rightarrow> entry \<Rightarrow> exn + RollbackResult" where
  "executeApiRollback rem k e =
     (case rollbackData e of
        None \<Rightarrow> Inl (ErrorObj ''TypeError'' ''Cannot destructure property rollbackPayload'')
      | Some rd \<Rightarrow>
          (case operationType e of
             product_update \<Rightarrow>
               rollback_call rem k ''/api/products'' ''PUT'' (rollbackPayload rd)
                 ''Product successfully rolled back'' ''Failed to rollback product'' e
           | bulk_price_update \<Rightarrow>
               rollback_call rem k ''/api/bulk-price-rollback'' ''POST'' (rollbackPayload rd)
                 ''Bulk price update successfully rolled back''
                 ''Failed to rollback bulk price update'' e
           | bulk_discount \<Rightarrow>
               rollback_call rem k ''/api/rollback-discount-enhanced'' ''POST'' (rollbackPayload rd)
                 ''Bulk discount successfully rolled back''
                 ''Failed to rollback bulk discount'' e
           | _ \<Rightarrow>
               Inl (ErrorObj ''Error''
                 (''Rollback not implemented for '' @ operation_type_name (operationType e)))))"

text \<open>The \<open>for ... of\<close> loop of \<open>executeBatchRollback\<close>, one request after the other.\<close>

fun batch_rollback_loop ::
  "remote \<Rightarrow> nat \<Rightarrow> entry list \<Rightarrow> string list \<Rightarrow> string list \<Rightarrow> string list \<times> string list"
where
  "batch_rollback_loop rem k [] results errs = (results, errs)"
| "batch_rollback_loop rem k (batchEntry # rest) results errs =
     (case executeApiRollback rem k batchEntry of
        Inr result \<Rightarrow>
          if success result
          then batch_rollback_loop rem (Suc k) rest (results @ affectedEntries result) errs
          else batch_rollback_loop rem (Suc k) rest results
                 (errs @ [''Failed to rollback '' @ id_e batchEntry @ '': '' @ message result])
      | Inl x \<Rightarrow>
          batch_rollback_loop rem (Suc k) rest results
            (errs @ [''Error rolling back '' @ id_e batchEntry @ '': '' @ exn_string x]))"

definition executeBatchRollback :: "remote \<Rightarrow> entry \<Rightarrow> store \<Rightarrow> exn + RollbackResult" where
  "executeBatchRollback rem e s =
     (let batchEntries = getBulkOperationItems (batchId (operationData e)) s;
          (results, errs) = batch_rollback_loop rem 0 batchEntries [] []
      in Inr \<lparr> success = (length errs = 0),
               message = ''Rolled back '' @ string_of_nat (length results) @ '' operations'' @
                 (if length errs > 0 then '' with '' @ string_of_nat (length errs) @ '' errors''
                  else []),
               affectedEntries = results,
               errors = (if length errs > 0 then Some errs else None) \<rparr>)"

definition executeFileRollback :: "entry \<Rightarrow> exn + RollbackResult" where
  "executeFileRollback e = Inl (ErrorObj ''Error'' ''File rollback not yet implemented'')"

definition executeRollback :: "remote \<Rightarrow> entry \<Rightarrow> store \<Rightarrow> exn + RollbackResult" where
  "executeRollback rem e s =
     (case rollbackData e of
        None \<Rightarrow> Inl (ErrorObj ''Error'' ''Unknown rollback type'')
      | Some rd \<Rightarrow>
          (case rollbackType rd of
             api_call \<Rightarrow> executeApiRollback rem 0 e
           | batch_operation \<Rightarrow> executeBatchRollback rem e s
           | file_restore \<Rightarrow> executeFileRollback e))"

text \<open>The argument of the \<open>createEntry\<close> call that records a rollback.\<close>

definition rollback_entry_input :: "string \<Rightarrow> entry \<Rightarrow> entry" where
  "rollback_entry_input entryId e =
     \<lparr> id_e = [], timestamp = [],
       operationType = operationType e,
       category = category e,
       productId = productId e,
       productTitle = productTitle e,
       variantId = variantId e,
       variantTitle = variantTitle e,
       sku = sku e,
       collectionId = None, collectionTitle = None,
       description = ''Rolled back: '' @ description e,
       status = Success,
       operationData = \<lparr> action = ''rollback'',
         oldValues = newValues (operationData e),
         newValues = oldValues (operationData e),
         affectedCount = None,
         batchId = batchId (operationData e),
         parentBatchId = None \<rparr>,
       rollbackData = Some \<lparr> canRollback = False, rollbackType = api_call,
         rollbackPayload = None, dependencies = None \<rparr>,
       userAgent = None, ipAddress = None, sessionId = None,
       metadata = Some ((case metadata e of None \<Rightarrow> empty_metadata | Some m \<Rightarrow> m)
         \<lparr> originalEntryId := Some entryId \<rparr>) \<rparr>"

text \<open>
  \<open>rollbackOperation\<close>. The result is always a \<open>RollbackResult\<close>: an exception of
  \<open>executeRollback\<close> is caught and turned into one.
\<close>

definition rollbackOperation ::
  "remote \<Rightarrow> stamp \<Rightarrow> string \<Rightarrow> store \<Rightarrow> RollbackResult \<times> store"
where
  "rollbackOperation rem st entryId s =
     (case find (\<lambda>e. id_e e = entryId) (getAllEntries s) of
        None \<Rightarrow>
          (\<lparr> success = False, message = ''History entry not found'', affectedEntries = [],
             errors = None \<rparr>, s)
      | Some e \<Rightarrow>
          if \<not> (case rollbackData e of None \<Rightarrow> False | Some rd \<Rightarrow> canRollback rd)
          then (\<lparr> success = False, message = ''This operation cannot be rolled back'',
                  affectedEntries = [], errors = None \<rparr>, s)
          else (case executeRollback rem e s of
                  Inr result \<Rightarrow>
                    if success result
                    then (result, snd (createEntry st (rollback_entry_input entryId e) s))
                    else (result, s)
                | Inl x \<Rightarrow>
                    (\<lparr> success = False,
                       message = (case exn_message x of Some m \<Rightarrow> m | None \<Rightarrow> ''Rollback failed''),
                       affectedEntries = [], errors = None \<rparr>, s)))"

section \<open>Clearing and importing\<close>

definition clearHistory :: "store \<Rightarrow> store" where
  "clearHistory s = []"



section \<open>The bulk discount run (\<open>applyDiscount\<close>)\<close>

record DiscountResult =
  dr_variantId :: string
  dr_productTitle :: string
  dr_variantTitle :: string
  dr_success :: bool
  dr_error :: "string option"
  dr_originalPrice :: string
  dr_newPrice :: string
  dr_compareAtPrice :: string

text \<open>An element of \<open>allVariants\<close>, with the fields the run reads.\<close>

record variant =
  v_id :: string
  v_title :: string
  v_price :: string
  v_compareAtPrice :: "string option"
  v_sku :: string
  v_productId :: string
  v_productTitle :: string

text \<open>
  The answer to one \<open>POST /api/apply-discount\<close>: \<open>fetch\<close>, \<open>response.json()\<close> or the
  reading of the body throws, or there is a response with its \<open>ok\<close> flag and its parsed
  body. \<open>api k req\<close> is the answer to the \<open>k\<close>-th request of the run.
\<close>

record api_data =
  d_results :: "DiscountResult list option"
  d_error :: "string option"

datatype api_outcome = Throws exn | Responds bool api_data

type_synonym discount_api = "nat \<Rightarrow> request \<Rightarrow> api_outcome"

text \<open>A number that may be \<open>NaN\<close> (\<open>None\<close>): \<open>Number(e.target.value)\<close>.\<close>

type_synonym jsnum = "rat option"

definition num_json :: "jsnum \<Rightarrow> jsval" where
  "num_json n = (case n of None \<Rightarrow> JNull | Some q \<Rightarrow> JNum q)"

definition apply_discount_request :: "string \<Rightarrow> jsnum \<Rightarrow> string \<Rightarrow> request" where
  "apply_discount_request vid discountPercentage expiryDate =
     \<lparr> url = ''/api/apply-discount'', http_method = ''POST'',
       body = Some (JObj [(''variantIds'', JArr [JStr vid]),
                          (''discountPercentage'', num_json discountPercentage),
                          (''expiryDate'', if truthy_str expiryDate then JStr expiryDate else JNull)]) \<rparr>"

text \<open>\<open>a || b\<close> on strings, the left one optional.\<close>

definition or_else :: "string option \<Rightarrow> string \<Rightarrow> string" where
  "or_else a b = (if truthy_opt a then the a else b)"

definition failed_result :: "variant option \<Rightarrow> string \<Rightarrow> string \<Rightarrow> DiscountResult" where
  "failed_result v vid err =
     \<lparr> dr_variantId = vid,
       dr_productTitle = or_else (map_option v_productTitle v) ''Unknown Product'',
       dr_variantTitle = or_else (map_option v_title v) ''Unknown Variant'',
       dr_success = False,
       dr_error = Some err,
       dr_originalPrice = or_else (map_option v_price v) ''0.00'',
       dr_newPrice = ''0.00'',
       dr_compareAtPrice = ''0.00'' \<rparr>"

text \<open>
  The body of \<open>batch.map(async (variantId) => ...)\<close>: what the promise of one item resolves
  to. It never rejects.
\<close>

definition process_item ::
  "discount_api \<Rightarrow> variant list \<Rightarrow> jsnum \<Rightarrow> string \<Rightarrow> nat \<Rightarrow> string \<Rightarrow>
   DiscountResult \<times> bool \<times> string"
where
  "process_item api allVariants discountPercentage expiryDate k vid =
     (let v = find (\<lambda>v. v_id v = vid) allVariants;
          displayName = (case v of Some w \<Rightarrow> v_productTitle w @ '' - '' @ v_title w
                         | None \<Rightarrow> ''Variant'')
      in case api k (apply_discount_request vid discountPercentage expiryDate) of
           Responds ok data \<Rightarrow>
             (case (ok, d_results data) of
                (True, Some (r # rs)) \<Rightarrow> (r, dr_success r, displayName)
              | _ \<Rightarrow> (failed_result v vid (or_else (d_error data) ''API request failed''),
                      False, displayName))
         | Throws x \<Rightarrow>
             (failed_result v vid
                (case exn_message x of Some m \<Rightarrow> m | None \<Rightarrow> ''Processing failed''),
              False, displayName))"

text \<open>\<open>xs.slice(a, b)\<close> for \<open>0 \<le> a \<le> b\<close>.\<close>

definition slice :: "nat \<Rightarrow> nat \<Rightarrow> 'a list \<Rightarrow> 'a list" where
  "slice a b xs = take (b - a) (drop a xs)"

definition batchSize :: nat where
  "batchSize = 2"

definition windowDelayMs :: nat where
  "windowDelayMs = 1100"

text \<open>The \<open>for\<close> loop that cuts \<open>selectedVariants\<close> into batches.\<close>

function make_batches :: "nat \<Rightarrow> string list \<Rightarrow> string list list \<Rightarrow> string list list" where
  "make_batches i selectedVariants batches =
     (if i < length selectedVariants
      then make_batches (i + batchSize) selectedVariants
             (batches @ [slice i (i + batchSize) selectedVariants])
      else batches)"
  by pat_completeness auto
termination
  by (relation "measure (\<lambda>(i, xs, bs). length xs - i)") (auto simp: batchSize_def)

declare make_batches.simps [simp del]

record progress =
  p_total :: nat
  p_completed :: nat
  p_successful :: nat
  p_failed :: nat
  p_current :: string

text \<open>
  What the run does to the outside, in order: a request sent, the join of a batch
  (\<open>await Promise.all\<close>), a pause, the reload of the products.
\<close>

datatype event = Request nat string | Joined nat | Sleep nat | RefreshProducts

text \<open>
  The local variables of the run (\<open>allResults\<close>, \<open>completed\<close>, \<open>successful\<close>, \<open>failed\<close>),
  the component state it sets while it runs, the number of requests sent and the events.
  The labels of \<open>current\<close> are written without their leading pictograph.
\<close>

record run_state =
  allResults :: "DiscountResult list"
  completed :: nat
  successful :: nat
  failed :: nat
  processProgress :: progress
  results :: "DiscountResult list"
  issued :: nat
  trace :: "event list"

text \<open>\<open>batchResults.forEach\<close>: one result after the other, in the order of the batch.\<close>

fun tally_results :: "nat \<Rightarrow> (DiscountResult \<times> bool \<times> string) list \<Rightarrow> run_state \<Rightarrow> run_state" where
  "tally_results totalCount [] st = st"
| "tally_results totalCount ((result, ok, displayName) # rest) st =
     (let all' = allResults st @ [result];
          completed' = completed st + 1;
          successful' = (if ok then successful st + 1 else successful st);
          failed' = (if ok then failed st else failed st + 1)
      in tally_results totalCount rest
           (st\<lparr> allResults := all', completed := completed',
                 successful := successful', failed := failed',
                 processProgress := \<lparr> p_total = totalCount, p_completed = completed',
                   p_successful = successful', p_failed = failed',
                   p_current = ''Completed: '' @ displayName \<rparr>,
                 results := all' \<rparr>))"

text \<open>
  One turn of the loop over the batches: the requests of the batch are all sent, the
  batch is joined, its results are counted, and the run pauses unless the batch is the
  last one.
\<close>

definition process_batch ::
  "discount_api \<Rightarrow> variant list \<Rightarrow> jsnum \<Rightarrow> string \<Rightarrow> nat \<Rightarrow> nat \<Rightarrow> nat \<Rightarrow> string list \<Rightarrow>
   run_state \<Rightarrow> run_state"
where
  "process_batch api allVariants discountPercentage expiryDate totalCount nbatches batchIndex batch st =
     (let st1 = st\<lparr> processProgress := (processProgress st)
                  \<lparr> p_current := ''Processing batch '' @ string_of_nat (batchIndex + 1) @ ''/'' @
                       string_of_nat nbatches @ '' ('' @ string_of_nat (length batch) @
                       '' items)...'' \<rparr> \<rparr>;
          ks = [issued st1 ..< issued st1 + length batch];
          batchResults = map (\<lambda>(k, vid). process_item api allVariants discountPercentage expiryDate k vid)
                           (zip ks batch);
          st2 = st1\<lparr> issued := issued st1 + length batch,
                     trace := trace st1 @ map (\<lambda>(k, vid). Request k vid) (zip ks batch) @
                              [Joined batchIndex] \<rparr>;
          st3 = tally_results totalCount batchResults st2
      in if batchIndex < nbatches - 1
         then st3\<lparr> trace := trace st3 @ [Sleep windowDelayMs] \<rparr>
         else st3)"

function process_batches ::
  "discount_api \<Rightarrow> variant list \<Rightarrow> jsnum \<Rightarrow> string \<Rightarrow> nat \<Rightarrow> string list list \<Rightarrow> nat \<Rightarrow>
   run_state \<Rightarrow> run_state"
where
  "process_batches api allVariants discountPercentage expiryDate totalCount batches batchIndex st =
     (if batchIndex < length batches
      then process_batches api allVariants discountPercentage expiryDate totalCount batches
             (batchIndex + 1)
             (process_batch api allVariants discountPercentage expiryDate totalCount (length batches)
                batchIndex (batches ! batchIndex) st)
      else st)"
  by pat_completeness auto
termination
  by (relation "measure (\<lambda>(api, vs, dp, ex, totalCount, batches, batchIndex, st). length batches - batchIndex)")
     auto

declare process_batches.simps [simp del]

text \<open>The items handed to the history: the successful results only.\<close>

definition history_item :: "variant list \<Rightarrow> jsnum \<Rightarrow> DiscountResult \<Rightarrow> affected_item" where
  "history_item allVariants discountPercentage result =
     (let v = find (\<lambda>v. v_id v = dr_variantId result) allVariants
      in \<lparr> i_productId = or_else (map_option v_productId v) [],
           i_productTitle = dr_productTitle result,
           i_variantId = Some (dr_variantId result),
           i_variantTitle = Some (dr_variantTitle result),
           i_sku = Some (or_else (map_option v_sku v) []),
           i_oldValues = [(''price'', JStr (dr_originalPrice result)),
                          (''compareAtPrice'',
                           (case v of None \<Rightarrow> JNull
                            | Some w \<Rightarrow> if truthy_opt (v_compareAtPrice w)
                                        then JStr (the (v_compareAtPrice w)) else JNull))],
           i_newValues = [(''price'', JStr (dr_newPrice result)),
                          (''compareAtPrice'', JStr (dr_compareAtPrice result)),
                          (''discountPercentage'', num_json discountPercentage)] \<rparr>)"

datatype message_type = msg_success | msg_error | msg_info

text \<open>
  The surroundings of one run: the remote API, the readings of clock and random
  generator, how a number and a date print, and whether \<open>new Date(expiryDate) <= new Date()\<close>
  holds.
\<close>

record discount_env =
  env_api :: discount_api
  env_stamps :: "nat \<Rightarrow> stamp"
  env_num_str :: "jsnum \<Rightarrow> string"
  env_date_str :: "string \<Rightarrow> string"
  env_expiry_passed :: bool

text \<open>
  The component state the run reads and writes, with the history store and the events.
  The texts of the messages are written without their leading pictograph. The state is
  the one at the end of the call; the timer that clears the progress display two seconds
  later is outside the model.
\<close>

record component =
  selectedVariants :: "string list"
  discountPercentage :: jsnum
  expiryDate :: string
  allVariants :: "variant list"
  ui_message :: "(message_type \<times> string) option"
  ui_results :: "DiscountResult list"
  ui_progress :: progress
  isApplying :: bool
  isProcessing :: bool
  history :: store
  events :: "event list"

definition final_message :: "discount_env \<Rightarrow> component \<Rightarrow> nat \<Rightarrow> nat \<Rightarrow> message_type \<times> string" where
  "final_message env c nsucc nfail =
     (if nfail = 0
      then (msg_success,
            ''Successfully applied '' @ env_num_str env (discountPercentage c) @
            ''% discount to all '' @ string_of_nat nsucc @ '' variants'' @
            (if truthy_str (expiryDate c)
             then '' (expires '' @ env_date_str env (expiryDate c) @ '')'' else []) @ ''!'')
      else if nsucc > 0
      then (msg_info,
            ''Applied discount to '' @ string_of_nat nsucc @ '' variants. '' @
            string_of_nat nfail @ '' failed - see failed products below for details.'')
      else (msg_error,
            ''All '' @ string_of_nat nfail @
            '' variants failed to update. Check failed products below for details.''))"

definition applyDiscount :: "discount_env \<Rightarrow> component \<Rightarrow> component" where
  "applyDiscount env c =
     (if length (selectedVariants c) = 0
      then c\<lparr> ui_message := Some (msg_error, ''Please select at least one variant to apply discount.'') \<rparr>
      else if (case discountPercentage c of None \<Rightarrow> False | Some d \<Rightarrow> d \<le> 0 \<or> d \<ge> 100)
      then c\<lparr> ui_message := Some (msg_error, ''Please enter a valid discount percentage between 1 and 99.'') \<rparr>
      else if truthy_str (expiryDate c) \<and> env_expiry_passed env
      then c\<lparr> ui_message := Some (msg_error, ''Expiry date must be in the future.'') \<rparr>
      else
        (let totalCount = length (selectedVariants c);
             st0 = \<lparr> allResults = [], completed = 0, successful = 0, failed = 0,
                     processProgress = \<lparr> p_total = totalCount, p_completed = 0, p_successful = 0,
                       p_failed = 0, p_current = ''Starting parallel processing...'' \<rparr>,
                     results = [], issued = 0, trace = events c \<rparr>;
             batches = make_batches 0 (selectedVariants c) [];
             st = process_batches (env_api env) (allVariants c) (discountPercentage c)
                    (expiryDate c) totalCount batches 0 st0;
             affectedItems = map (history_item (allVariants c) (discountPercentage c))
                               (filter dr_success (allResults st));
             history' =
               (if length affectedItems > 0
                then snd (createBulkHistoryEntry (env_stamps env) bulk_discount Pricing
                       (''Bulk Discount Applied: '' @ env_num_str env (discountPercentage c) @ ''% off'')
                       affectedItems
                       (Some (JObj [(''variantIds'', JArr (map JStr (selectedVariants c))),
                                    (''originalDiscountPercentage'', num_json (discountPercentage c)),
                                    (''expiryDate'', if truthy_str (expiryDate c)
                                                     then JStr (expiryDate c) else JNull)]))
                       (history c))
                else history c)
         in c\<lparr> selectedVariants := [],
               ui_message := Some (final_message env c (successful st) (failed st)),
               ui_results := results st,
               ui_progress := \<lparr> p_total = totalCount, p_completed = totalCount,
                 p_successful = successful st, p_failed = failed st,
                 p_current = ''All '' @ string_of_nat totalCount @ '' items processed! '' @
                   string_of_nat (successful st) @ '' successful, '' @
                   string_of_nat (failed st) @ '' failed'' \<rparr>,
               isApplying := False,
               isProcessing := True,
               history := history',
               events := trace st @ [RefreshProducts] \<rparr>))"

section \<open>The price rule (\<open>calculateNewPrice\<close>)\<close>

text \<open>
  A JavaScript number is modelled as an exact rational, or \<open>None\<close> for \<open>NaN\<close>; the
  rounding of binary floating point and the infinities are left out of the model.
\<close>

datatype rule_type = percentage | fixed | absolute

datatype apply_to = to_price | to_compareAtPrice | to_both














section \<open>Notions used in the statements\<close>

text \<open>An entry as \<open>createEntry\<close> stores it: with the id and the timestamp of the call.\<close>

definition stamped :: "stamp \<Rightarrow> entry \<Rightarrow> entry" where
  "stamped st e = e\<lparr> id_e := hist_id st, timestamp := iso st \<rparr>"

text \<open>The entries \<open>createBulkOperation\<close> makes for the items, in the order of the items.\<close>

definition child_entries ::
  "(nat \<Rightarrow> stamp) \<Rightarrow> nat \<Rightarrow> operation_type \<Rightarrow> category \<Rightarrow> string \<Rightarrow> string \<Rightarrow> affected_item list \<Rightarrow> entry list"
where
  "child_entries stamps k opType cat descr bId items =
     map (\<lambda>(j, item). stamped (stamps j) (individual_entry_input opType cat descr bId item))
       (zip [k ..< k + length items] items)"

text \<open>The two kinds of entry of a batch, told apart by \<open>operationData.action\<close>.\<close>

definition is_aggregate :: "entry \<Rightarrow> bool" where
  "is_aggregate e = (action (operationData e) = ''bulk_operation'')"

definition is_child :: "entry \<Rightarrow> bool" where
  "is_child e = (action (operationData e) = ''individual_item_in_bulk'')"

text \<open>The filter \<open>{ batchId: b }\<close>.\<close>

definition batch_filter :: "string \<Rightarrow> HistoryFilter" where
  "batch_filter b = \<lparr> f_category = None, f_operationType = None, f_status = None,
     f_dateRange = None, f_productId = None, f_searchTerm = None, f_batchId = Some b \<rparr>"

section \<open>Example data\<close>

text \<open>Readings of the clock one millisecond apart, with one random suffix.\<close>

definition example_stamps :: "nat \<Rightarrow> stamp" where
  "example_stamps k = \<lparr> now = 1700000000000 + k, rnd = ''k3j9x0q1z'',
     iso = ''2023-11-14T22:13:20.000Z'' \<rparr>"

definition example_item :: affected_item where
  "example_item = \<lparr> i_productId = ''gid://shopify/Product/1'', i_productTitle = ''Shirt'',
     i_variantId = Some ''gid://shopify/ProductVariant/11'', i_variantTitle = Some ''Blue'',
     i_sku = Some ''SH-1'', i_oldValues = [(''price'', JStr ''20.00'')],
     i_newValues = [(''price'', JStr ''18.00'')] \<rparr>"

text \<open>A batch of 5000 items, one for each of 5000 variants of the product.\<close>

definition example_batch :: "affected_item list" where
  "example_batch =
     map (\<lambda>k. example_item \<lparr> i_variantId := Some (''gid://shopify/ProductVariant/'' @ string_of_nat k) \<rparr>)
       [0 ..< 5000]"

text \<open>\<open>toLowerCase\<close> on ASCII text, and a date parser that knows the one timestamp above.\<close>

definition ascii_lower :: "string \<Rightarrow> string" where
  "ascii_lower s =
     map (\<lambda>c. let n = of_char c :: nat in if 65 \<le> n \<and> n \<le> 90 then char_of (n + 32) else c) s"

definition example_dateOf :: "string \<Rightarrow> int option" where
  "example_dateOf t = (if t = ''2023-11-14T22:13:20.000Z'' then Some 1700000000000 else None)"

text \<open>
  An entry as \<open>createProductHistoryEntry\<close> makes it, one as \<open>createImageHistoryEntry\<close>
  makes it (not to be rolled back, of type \<open>file_restore\<close>), and a variant of the second
  whose \<open>canRollback\<close> is set.
\<close>

definition example_entry :: entry where
  "example_entry =
     \<lparr> id_e = ''hist_1700000000000_aaaaaaaaa'', timestamp = ''2023-11-14T22:13:20.000Z'',
       operationType = product_update, category = Product,
       productId = Some ''gid://shopify/Product/1'', productTitle = Some ''Shirt'',
       variantId = None, variantTitle = None, sku = None,
       collectionId = None, collectionTitle = None,
       description = ''Updated: Shirt'', status = Success,
       operationData = \<lparr> action = ''Updated'',
         oldValues = Some [(''title'', JStr ''Shirt old'')],
         newValues = Some [(''title'', JStr ''Shirt'')],
         affectedCount = None, batchId = None, parentBatchId = None \<rparr>,
       rollbackData = Some \<lparr> canRollback = True, rollbackType = api_call,
         rollbackPayload = Some (JObj [(''id'', JStr ''gid://shopify/Product/1''),
                                       (''title'', JStr ''Shirt old'')]),
         dependencies = None \<rparr>,
       userAgent = None, ipAddress = None, sessionId = None, metadata = None \<rparr>"

definition example_image_entry :: entry where
  "example_image_entry =
     \<lparr> id_e = ''hist_1700000000001_bbbbbbbbb'', timestamp = ''2023-11-14T22:13:20.001Z'',
       operationType = image_upload, category = Images,
       productId = Some ''gid://shopify/Product/1'', productTitle = Some ''Shirt'',
       variantId = None, variantTitle = None, sku = None,
       collectionId = None, collectionTitle = None,
       description = ''Uploaded: 1 images for Shirt'', status = Success,
       operationData = \<lparr> action = ''Uploaded'', oldValues = None, newValues = None,
         affectedCount = Some 1, batchId = None, parentBatchId = None \<rparr>,
       rollbackData = Some \<lparr> canRollback = False, rollbackType = file_restore,
         rollbackPayload = None, dependencies = None \<rparr>,
       userAgent = None, ipAddress = None, sessionId = None,
       metadata = Some (empty_metadata \<lparr> imageUrls := Some [''https://cdn.example/shirt.png''] \<rparr>) \<rparr>"

definition example_restorable_entry :: entry where
  "example_restorable_entry =
     example_image_entry \<lparr> id_e := ''hist_1700000000002_ccccccccc'',
       rollbackData := Some \<lparr> canRollback = True, rollbackType = file_restore,
         rollbackPayload = None, dependencies = None \<rparr> \<rparr>"




text \<open>A remote store that answers every request with \<open>ok\<close>.\<close>

definition remote_ok :: remote where
  "remote_ok k req = Response True"


section \<open>The price rule in the words of the specification\<close>





section \<open>The batch run in the words of the specification\<close>

text \<open>
  The \<open>j\<close>-th group of the selection: \<open>batchSize\<close> items from position \<open>j * batchSize\<close>
  on, fewer when the selection ends before. The number of groups of \<open>n\<close> items is \<open>n\<close>
  divided by \<open>batchSize\<close>, rounded up.
\<close>

definition batch_at :: "string list \<Rightarrow> nat \<Rightarrow> string list" where
  "batch_at xs j = slice (j * batchSize) (j * batchSize + batchSize) xs"

definition n_batches :: "nat \<Rightarrow> nat" where
  "n_batches n = (n + batchSize - 1) div batchSize"

text \<open>
  What group \<open>j\<close> does to the outside: the requests of its items, by position in the
  selection, then the join, then the pause when another group follows.
\<close>

definition group_events :: "string list \<Rightarrow> nat \<Rightarrow> event list" where
  "group_events xs j =
     map (\<lambda>i. Request i (xs ! i)) [j * batchSize ..< min (j * batchSize + batchSize) (length xs)] @
     [Joined j] @
     (if j + 1 < n_batches (length xs) then [Sleep windowDelayMs] else [])"

definition run_events :: "string list \<Rightarrow> event list" where
  "run_events xs = concat (map (group_events xs) [0 ..< n_batches (length xs)])"

text \<open>The checks at the start of \<open>applyDiscount\<close> pass.\<close>

definition valid_run :: "discount_env \<Rightarrow> component \<Rightarrow> bool" where
  "valid_run env c =
     (selectedVariants c \<noteq> [] \<and>
      (case discountPercentage c of None \<Rightarrow> True | Some d \<Rightarrow> 0 < d \<and> d < 100) \<and>
      (expiryDate c = [] \<or> \<not> env_expiry_passed env))"





definition is_sleep :: "event \<Rightarrow> bool" where
  "is_sleep ev = (case ev of Sleep ms \<Rightarrow> True | _ \<Rightarrow> False)"

text \<open>
  A run over five variants in which the request of the third one (position 2) fails with
  a network error and every other request is answered with a successful result.
\<close>

definition example_result :: "string \<Rightarrow> DiscountResult" where
  "example_result vid =
     \<lparr> dr_variantId = vid, dr_productTitle = ''Shirt'', dr_variantTitle = ''Blue'',
       dr_success = True, dr_error = None, dr_originalPrice = ''20.00'',
       dr_newPrice = ''18.00'', dr_compareAtPrice = ''20.00'' \<rparr>"

definition example_api :: discount_api where
  "example_api k req =
     (if k = 2 then Throws (ErrorObj ''TypeError'' ''Failed to fetch'')
      else Responds True \<lparr> d_results = Some [example_result (''v'' @ string_of_nat (Suc k))],
                           d_error = None \<rparr>)"

definition example_num_str :: "jsnum \<Rightarrow> string" where
  "example_num_str n = (if n = Some 10 then ''10'' else ''NaN'')"

definition example_env :: discount_env where
  "example_env = \<lparr> env_api = example_api, env_stamps = example_stamps,
     env_num_str = example_num_str, env_date_str = ascii_lower, env_expiry_passed = False \<rparr>"

definition example_component :: component where
  "example_component =
     \<lparr> selectedVariants = [''v1'', ''v2'', ''v3'', ''v4'', ''v5''],
       discountPercentage = Some 10,
       expiryDate = [],
       allVariants = [],
       ui_message = None,
       ui_results = [],
       ui_progress = \<lparr> p_total = 0, p_completed = 0, p_successful = 0, p_failed = 0,
                       p_current = [] \<rparr>,
       isApplying = False,
       isProcessing = False,
       history = [],
       events = [] \<rparr>"

section \<open>The history store: stored entries\<close>

lemma MAX_pos: "0 < MAX_ENTRIES"
  by (simp add: MAX_ENTRIES_def)

lemma saveEntry_eq: "saveEntry e s = take MAX_ENTRIES (e # s)"
  by (simp add: saveEntry_def getAllEntries_def)

lemma createEntry_eq: "createEntry st e s = (stamped st e, take MAX_ENTRIES (stamped st e # s))"
  by (simp add: createEntry_def stamped_def Let_def saveEntry_eq)

lemma take_cons_take: "0 < n \<Longrightarrow> take n (x # take n s) = take n (x # s)"
  by (cases n) simp_all

lemma child_entries_Nil: "child_entries stamps k o' c d b [] = []"
  by (simp add: child_entries_def)

lemma child_entries_Cons:
  "child_entries stamps k o' c d b (it # its) =
     stamped (stamps k) (individual_entry_input o' c d b it) # child_entries stamps (Suc k) o' c d b its"
  by (simp add: child_entries_def upt_conv_Cons del: upt_Suc)

lemma individual_entries_eq:
  "individual_entries stamps k o' c d b items entries (take MAX_ENTRIES s) =
     (entries @ child_entries stamps k o' c d b items,
      take MAX_ENTRIES (rev (child_entries stamps k o' c d b items) @ s))"
proof (induction items arbitrary: k entries s)
  case Nil
  then show ?case by (simp add: child_entries_Nil)
next
  case (Cons it its)
  let ?h = "stamped (stamps k) (individual_entry_input o' c d b it)"
  have "individual_entries stamps k o' c d b (it # its) entries (take MAX_ENTRIES s) =
        individual_entries stamps (Suc k) o' c d b its (entries @ [?h]) (take MAX_ENTRIES (?h # s))"
    by (simp add: createEntry_eq take_cons_take [OF MAX_pos])
  also have "\<dots> = ((entries @ [?h]) @ child_entries stamps (Suc k) o' c d b its,
      take MAX_ENTRIES (rev (child_entries stamps (Suc k) o' c d b its) @ ?h # s))"
    by (rule Cons.IH)
  finally show ?case by (simp add: child_entries_Cons)
qed

lemma createBulkOperation_eq:
  "createBulkOperation stamps o' c d items payload s =
     (let b = batch_id (stamps 0);
          m = stamped (stamps 1) (main_entry_input o' c d items payload b);
          cs = child_entries stamps 2 o' c d b items
      in (\<lparr> r_batchId = b, r_entries = m # cs \<rparr>, take MAX_ENTRIES (rev (m # cs) @ s)))"
  by (simp add: createBulkOperation_def createEntry_eq individual_entries_eq Let_def)

lemma stamped_simps [simp]:
  "id_e (stamped st e) = hist_id st"
  "timestamp (stamped st e) = iso st"
  "status (stamped st e) = status e"
  "operationData (stamped st e) = operationData e"
  "metadata (stamped st e) = metadata e"
  "rollbackData (stamped st e) = rollbackData e"
  "operationType (stamped st e) = operationType e"
  by (simp_all add: stamped_def)

lemma child_entries_length [simp]: "length (child_entries stamps k o' c d b items) = length items"
  by (simp add: child_entries_def)

lemma child_entries_set:
  "e \<in> set (child_entries stamps k o' c d b items) \<Longrightarrow>
   \<exists>j item. e = stamped (stamps j) (individual_entry_input o' c d b item)"
  by (auto simp: child_entries_def dest!: set_zip_leftD set_zip_rightD in_set_zipE)

text \<open>
  C9. \<open>createBulkOperation\<close> returns the aggregate entry followed by one entry for each
  item, every one of them with status \<open>success\<close>, whatever the items are. The summary of
  the aggregate entry has \<open>totalItems\<close> and \<open>successfulItems\<close> equal to the number of
  items and \<open>failedItems\<close> equal to 0, so the two add up to \<open>totalItems\<close> and no entry
  of the call carries a failure count other than 0. The entries are stored in front of
  the history, newest first, cut to the capacity.
\<close>

theorem createBulkOperation_always_success:
  assumes "createBulkOperation stamps opType cat descr items payload s = (r, s')"
  shows "length (r_entries r) = Suc (length items)
       \<and> (\<forall>e \<in> set (r_entries r). status e = Success)
       \<and> is_aggregate (hd (r_entries r))
       \<and> (\<forall>e \<in> set (tl (r_entries r)). is_child e)
       \<and> (\<exists>m. metadata (hd (r_entries r)) = Some m \<and>
              bulkOperationSummary m =
                Some \<lparr> totalItems = length items, successfulItems = length items,
                       failedItems = 0, summaryOperationType = operation_type_name opType \<rparr>)
       \<and> (\<forall>e \<in> set (r_entries r). \<forall>m sm. metadata e = Some m \<longrightarrow> bulkOperationSummary m = Some sm \<longrightarrow>
              failedItems sm = 0 \<and> successfulItems sm + failedItems sm = totalItems sm)
       \<and> s' = take MAX_ENTRIES (rev (r_entries r) @ s)"
proof -
  define b where "b = batch_id (stamps 0)"
  define m where "m = stamped (stamps 1) (main_entry_input opType cat descr items payload b)"
  define cs where "cs = child_entries stamps 2 opType cat descr b items"
  have r: "r = \<lparr> r_batchId = b, r_entries = m # cs \<rparr>" and s': "s' = take MAX_ENTRIES (rev (m # cs) @ s)"
    using assms by (simp_all add: createBulkOperation_eq Let_def b_def m_def cs_def)
  have c: "status e = Success \<and> is_child e \<and> metadata e = None" if "e \<in> set cs" for e
    using child_entries_set [OF that [unfolded cs_def]]
    by (auto simp: individual_entry_input_def is_child_def)
  have m1: "status m = Success" "is_aggregate m"
    by (simp_all add: m_def main_entry_input_def is_aggregate_def)
  have m2: "metadata m = Some (empty_metadata
         \<lparr> bulkOperationSummary := Some \<lparr> totalItems = length items,
              successfulItems = length items, failedItems = 0,
              summaryOperationType = operation_type_name opType \<rparr>,
           affectedProducts := Some (map i_productId items),
           affectedVariants := Some (map the (filter truthy_opt (map i_variantId items))) \<rparr>)"
    by (simp add: m_def main_entry_input_def)
  show ?thesis
    using c m1 by (auto simp: r s' m2 cs_def)
qed

theorem createBulkOperation_always_success_witness:
  "map status (r_entries (fst (createBulkOperation example_stamps bulk_discount Pricing
      ''Bulk Discount Applied: 10% off'' [example_item, example_item] None [])))
     = [Success, Success, Success]
   \<and> (\<exists>m. metadata (hd (r_entries (fst (createBulkOperation example_stamps bulk_discount Pricing
      ''Bulk Discount Applied: 10% off'' [example_item, example_item] None [])))) = Some m \<and>
          bulkOperationSummary m = Some \<lparr> totalItems = 2, successfulItems = 2, failedItems = 0,
            summaryOperationType = ''bulk_discount'' \<rparr>)"
proof -
  obtain r s' where X: "createBulkOperation example_stamps bulk_discount Pricing
           ''Bulk Discount Applied: 10% off'' [example_item, example_item] None [] = (r, s')"
    by (cases "createBulkOperation example_stamps bulk_discount Pricing
           ''Bulk Discount Applied: 10% off'' [example_item, example_item] None []") blast
  from createBulkOperation_always_success [OF X]
  have l: "length (r_entries r) = 3" and a: "\<forall>e \<in> set (r_entries r). status e = Success"
    and m: "\<exists>m. metadata (hd (r_entries r)) = Some m \<and>
          bulkOperationSummary m = Some \<lparr> totalItems = 2, successfulItems = 2, failedItems = 0,
            summaryOperationType = ''bulk_discount'' \<rparr>"
    by (simp_all add: numeral_2_eq_2 numeral_3_eq_3)
  from l obtain x y z where "r_entries r = [x, y, z]"
    by (auto simp: numeral_3_eq_3 length_Suc_conv)
  with a m show ?thesis
    by (simp add: X)
qed

section \<open>Batch linkage\<close>

lemma batch_id_not_hist_id: "batch_id st \<noteq> hist_id st'"
  by (simp add: batch_id_def hist_id_def)

lemma batch_id_nonempty: "truthy_opt (Some (batch_id st))"
  by (simp add: batch_id_def truthy_opt_def truthy_str_def)

lemma child_linkage:
  assumes "e \<in> set (child_entries stamps k o' c d b items)"
  shows "is_child e \<and> \<not> is_aggregate e \<and> batchId (operationData e) = Some b \<and>
         parentBatchId (operationData e) = Some b \<and> matches_batch b e"
  using child_entries_set [OF assms]
  by (auto simp: individual_entry_input_def is_child_def is_aggregate_def matches_batch_def)

lemma main_linkage:
  "is_aggregate (stamped st (main_entry_input o' c d items payload b))"
  "\<not> is_child (stamped st (main_entry_input o' c d items payload b))"
  "batchId (operationData (main_entry_input o' c d items payload b)) = Some b"
  "parentBatchId (operationData (main_entry_input o' c d items payload b)) = None"
  "matches_batch b (stamped st (main_entry_input o' c d items payload b))"
  by (simp_all add: main_entry_input_def is_aggregate_def is_child_def matches_batch_def)

lemma take_append_le: "length xs \<le> n \<Longrightarrow> take n (xs @ ys) = xs @ take (n - length xs) ys"
  by simp

text \<open>
  C5, as the code has it. The aggregate entry carries the batch id in \<open>batchId\<close> and no
  \<open>parentBatchId\<close>. Every entry of an item carries the batch id in both \<open>batchId\<close> and
  \<open>parentBatchId\<close>: its \<open>parentBatchId\<close> is the \<open>batchId\<close> of the aggregate entry made
  by the same call, and it is never the \<open>id\<close> of that entry.
\<close>

theorem batch_linkage:
  assumes "createBulkOperation stamps opType cat descr items payload s = (r, s')"
  shows "\<exists>m cs. r_entries r = m # cs \<and> length cs = length items
       \<and> is_aggregate m
       \<and> batchId (operationData m) = Some (r_batchId r)
       \<and> parentBatchId (operationData m) = None
       \<and> (\<forall>c \<in> set cs. is_child c
             \<and> batchId (operationData c) = Some (r_batchId r)
             \<and> parentBatchId (operationData c) = Some (r_batchId r)
             \<and> parentBatchId (operationData c) = batchId (operationData m)
             \<and> parentBatchId (operationData c) \<noteq> Some (id_e m))"
proof -
  define b where "b = batch_id (stamps 0)"
  define m where "m = stamped (stamps 1) (main_entry_input opType cat descr items payload b)"
  define cs where "cs = child_entries stamps 2 opType cat descr b items"
  have r: "r = \<lparr> r_batchId = b, r_entries = m # cs \<rparr>"
    using assms by (simp_all add: createBulkOperation_eq Let_def b_def m_def cs_def)
  have "id_e m \<noteq> b" by (simp add: m_def b_def batch_id_not_hist_id [symmetric])
  then show ?thesis
    using child_linkage [of _ stamps 2 opType cat descr b items]
    by (intro exI [of _ m] exI [of _ cs]) (auto simp: r m_def main_linkage cs_def)
qed

theorem batch_linkage_witness:
  "\<exists>m cs. r_entries (fst (createBulkOperation example_stamps bulk_discount Pricing ''Bulk Discount Applied: 10% off'' [example_item, example_item] None [])) = m # cs
     \<and> length cs = 2 \<and> (\<forall>c \<in> set cs. parentBatchId (operationData c) = batchId (operationData m))"
  using batch_linkage [of example_stamps bulk_discount Pricing "''Bulk Discount Applied: 10% off''"
      "[example_item, example_item]" None "[]"]
  by (cases "createBulkOperation example_stamps bulk_discount Pricing ''Bulk Discount Applied: 10% off'' [example_item, example_item] None []") auto

text \<open>
  C5 as stated fails: in a batch of one item, the \<open>parentBatchId\<close> of the item's entry
  is not the \<open>id\<close> of the aggregate entry.
\<close>

theorem parentBatchId_is_not_aggregate_id:
  "parentBatchId (operationData (r_entries (fst (createBulkOperation example_stamps bulk_discount
      Pricing ''Bulk Discount Applied: 10% off'' [example_item] None [])) ! 1))
   \<noteq> Some (id_e (r_entries (fst (createBulkOperation example_stamps bulk_discount
      Pricing ''Bulk Discount Applied: 10% off'' [example_item] None [])) ! 0))"
  by (simp add: createBulkOperation_eq Let_def child_entries_Cons child_entries_Nil
      individual_entry_input_def batch_id_not_hist_id)

section \<open>The batch query\<close>

lemma filter_all: "(\<And>x. x \<in> set xs \<Longrightarrow> P x) \<Longrightarrow> filter P xs = xs"
  by (induction xs) auto

lemma filter_none: "(\<And>x. x \<in> set xs \<Longrightarrow> \<not> P x) \<Longrightarrow> filter P xs = []"
  by (induction xs) auto

lemma getFilteredEntries_batch:
  "truthy_opt (Some b) \<Longrightarrow> getFilteredEntries lower dateOf (batch_filter b) s = filter (matches_batch b) s"
  by (simp add: getFilteredEntries_def batch_filter_def getAllEntries_def truthy_opt_def)

text \<open>
  C8, as the code has it. When the batch has fewer items than the capacity of the store
  and no entry stored before carries the batch id, the query with the filter
  \<open>{ batchId: B }\<close> returns the entries of the call and nothing else, newest first: one
  aggregate entry and one entry for each item.
\<close>

theorem batch_query_exact:
  assumes "createBulkOperation stamps opType cat descr items payload s = (r, s')"
    and "length items < MAX_ENTRIES"
    and "\<forall>e \<in> set s. \<not> matches_batch (r_batchId r) e"
  shows "getFilteredEntries lower dateOf (batch_filter (r_batchId r)) s' = rev (r_entries r)
       \<and> length (filter is_aggregate (getFilteredEntries lower dateOf (batch_filter (r_batchId r)) s')) = 1
       \<and> length (filter is_child (getFilteredEntries lower dateOf (batch_filter (r_batchId r)) s')) = length items
       \<and> length (getFilteredEntries lower dateOf (batch_filter (r_batchId r)) s') = Suc (length items)"
proof -
  define b where "b = batch_id (stamps 0)"
  define m where "m = stamped (stamps 1) (main_entry_input opType cat descr items payload b)"
  define cs where "cs = child_entries stamps 2 opType cat descr b items"
  have r: "r = \<lparr> r_batchId = b, r_entries = m # cs \<rparr>" and s': "s' = take MAX_ENTRIES (rev (m # cs) @ s)"
    using assms(1) by (simp_all add: createBulkOperation_eq Let_def b_def m_def cs_def)
  define es where "es = rev (m # cs)"
  have len: "length es \<le> MAX_ENTRIES"
    using assms(2) by (simp add: cs_def es_def)
  have s'2: "s' = es @ take (MAX_ENTRIES - length es) s"
    unfolding s' es_def [symmetric] using len by (rule take_append_le)
  have old: "filter (matches_batch b) (take n s) = []" for n
    using assms(3) by (intro filter_none) (auto simp: r dest: in_set_takeD)
  have es_match: "filter (matches_batch b) es = es"
    unfolding es_def
    by (intro filter_all) (auto simp: cs_def m_def main_linkage dest: child_linkage)
  have bt: "truthy_opt (Some b)"
    unfolding b_def by (rule batch_id_nonempty)
  have q: "getFilteredEntries lower dateOf (batch_filter (r_batchId r)) s' = rev (m # cs)"
    by (simp add: r getFilteredEntries_batch [OF bt] s'2 old es_match) (simp add: es_def)
  have agg: "filter is_aggregate (rev cs) = []"
    by (intro filter_none) (auto simp: cs_def dest: child_linkage)
  have ch: "filter is_child (rev cs) = rev cs"
    by (intro filter_all) (auto simp: cs_def dest: child_linkage)
  show ?thesis
    unfolding q using agg ch by (simp add: r m_def main_linkage) (simp add: cs_def)
qed

theorem batch_query_exact_witness:
  "length [example_item, example_item] < MAX_ENTRIES
   \<and> length (filter is_aggregate (getFilteredEntries ascii_lower example_dateOf
        (batch_filter (r_batchId (fst (createBulkOperation example_stamps bulk_discount Pricing
           ''Bulk Discount Applied: 10% off'' [example_item, example_item] None []))))
        (snd (createBulkOperation example_stamps bulk_discount Pricing
           ''Bulk Discount Applied: 10% off'' [example_item, example_item] None [])))) = 1
   \<and> length (filter is_child (getFilteredEntries ascii_lower example_dateOf
        (batch_filter (r_batchId (fst (createBulkOperation example_stamps bulk_discount Pricing
           ''Bulk Discount Applied: 10% off'' [example_item, example_item] None []))))
        (snd (createBulkOperation example_stamps bulk_discount Pricing
           ''Bulk Discount Applied: 10% off'' [example_item, example_item] None [])))) = 2
   \<and> length (getFilteredEntries ascii_lower example_dateOf
        (batch_filter (r_batchId (fst (createBulkOperation example_stamps bulk_discount Pricing
           ''Bulk Discount Applied: 10% off'' [example_item, example_item] None []))))
        (snd (createBulkOperation example_stamps bulk_discount Pricing
           ''Bulk Discount Applied: 10% off'' [example_item, example_item] None []))) = 3"
proof -
  obtain r s' where X: "createBulkOperation example_stamps bulk_discount Pricing
           ''Bulk Discount Applied: 10% off'' [example_item, example_item] None [] = (r, s')"
    by (cases "createBulkOperation example_stamps bulk_discount Pricing
           ''Bulk Discount Applied: 10% off'' [example_item, example_item] None []") blast
  have h2: "length [example_item, example_item] < MAX_ENTRIES"
    by (simp add: MAX_ENTRIES_def)
  have h3: "\<forall>e \<in> set []. \<not> matches_batch (r_batchId r) e"
    by simp
  from batch_query_exact [OF X h2 h3, of ascii_lower example_dateOf] h2
  show ?thesis
    by (auto simp: X numeral_2_eq_2 numeral_3_eq_3)
qed

text \<open>
  C8 as stated fails: a batch of 5000 items fills the store with the entries of the
  items, and its aggregate entry, stored first, is cut off. The query returns 5000
  entries, none of them an aggregate entry.
\<close>

theorem aggregate_evicted_from_full_batch:
  "filter is_aggregate (getFilteredEntries ascii_lower example_dateOf
      (batch_filter (r_batchId (fst (createBulkOperation example_stamps bulk_discount Pricing
         ''Bulk Discount Applied: 10% off'' example_batch None []))))
      (snd (createBulkOperation example_stamps bulk_discount Pricing
         ''Bulk Discount Applied: 10% off'' example_batch None []))) = []
   \<and> length (getFilteredEntries ascii_lower example_dateOf
      (batch_filter (r_batchId (fst (createBulkOperation example_stamps bulk_discount Pricing
         ''Bulk Discount Applied: 10% off'' example_batch None []))))
      (snd (createBulkOperation example_stamps bulk_discount Pricing
         ''Bulk Discount Applied: 10% off'' example_batch None []))) = 5000"
proof -
  define d where "d = ''Bulk Discount Applied: 10% off''"
  define items where "items = example_batch"
  define b where "b = batch_id (example_stamps 0)"
  define m where "m = stamped (example_stamps 1) (main_entry_input bulk_discount Pricing d items None b)"
  define cs where "cs = child_entries example_stamps 2 bulk_discount Pricing d b items"
  have len: "length (rev cs) = MAX_ENTRIES"
    by (simp add: cs_def items_def example_batch_def MAX_ENTRIES_def)
  have tk: "take MAX_ENTRIES (rev (m # cs) @ []) = rev cs"
    using len by simp
  have "createBulkOperation example_stamps bulk_discount Pricing d items None []
           = (\<lparr> r_batchId = b, r_entries = m # cs \<rparr>, take MAX_ENTRIES (rev (m # cs) @ []))"
    unfolding createBulkOperation_eq Let_def b_def [symmetric] m_def [symmetric] cs_def [symmetric]
    by (rule refl)
  then have X: "createBulkOperation example_stamps bulk_discount Pricing d items None []
           = (\<lparr> r_batchId = b, r_entries = m # cs \<rparr>, rev cs)"
    unfolding tk .
  have bt: "truthy_opt (Some b)"
    unfolding b_def by (rule batch_id_nonempty)
  have all: "filter (matches_batch b) (rev cs) = rev cs"
    by (intro filter_all) (auto simp: cs_def dest: child_linkage)
  have agg: "filter is_aggregate (rev cs) = []"
    by (intro filter_none) (auto simp: cs_def dest: child_linkage)
  have "filter is_aggregate (getFilteredEntries ascii_lower example_dateOf
      (batch_filter (r_batchId (fst (createBulkOperation example_stamps bulk_discount Pricing d items None []))))
      (snd (createBulkOperation example_stamps bulk_discount Pricing d items None []))) = []
   \<and> length (getFilteredEntries ascii_lower example_dateOf
      (batch_filter (r_batchId (fst (createBulkOperation example_stamps bulk_discount Pricing d items None []))))
      (snd (createBulkOperation example_stamps bulk_discount Pricing d items None []))) = 5000"
    using len by (simp add: X getFilteredEntries_batch [OF bt] all agg MAX_ENTRIES_def)
  then show ?thesis
    by (simp only: d_def items_def)
qed

section \<open>Rollback\<close>

text \<open>
  C4. When the entry found under \<open>entryId\<close> may be rolled back and its rollback succeeds,
  \<open>rollbackOperation\<close> returns the result of the rollback and puts exactly one new entry
  in front of the history. The new entry has the operation type of the source entry, the
  action \<open>rollback\<close>, the old and new values of the source entry exchanged, and
  \<open>canRollback = false\<close>.
\<close>

theorem rollback_appends_swapped_entry:
  assumes "find (\<lambda>x. id_e x = entryId) (getAllEntries s) = Some e"
    and "rollbackData e = Some rd" and "canRollback rd"
    and "executeRollback rem e s = Inr res" and "success res"
  shows "\<exists>rb. rollbackOperation rem st entryId s = (res, take MAX_ENTRIES (rb # s))
       \<and> id_e rb = hist_id st
       \<and> operationType rb = operationType e
       \<and> action (operationData rb) = ''rollback''
       \<and> oldValues (operationData rb) = newValues (operationData e)
       \<and> newValues (operationData rb) = oldValues (operationData e)
       \<and> (\<exists>rd'. rollbackData rb = Some rd' \<and> \<not> canRollback rd')"
  using assms
  by (intro exI [of _ "stamped st (rollback_entry_input entryId e)"])
     (simp add: rollbackOperation_def createEntry_eq rollback_entry_input_def)

theorem rollback_appends_swapped_entry_witness:
  "\<exists>rb. rollbackOperation remote_ok (example_stamps 7) ''hist_1700000000000_aaaaaaaaa'' [example_entry]
          = (\<lparr> success = True, message = ''Product successfully rolled back'',
               affectedEntries = [''hist_1700000000000_aaaaaaaaa''], errors = None \<rparr>,
             [rb, example_entry])
       \<and> action (operationData rb) = ''rollback''
       \<and> oldValues (operationData rb) = Some [(''title'', JStr ''Shirt'')]
       \<and> newValues (operationData rb) = Some [(''title'', JStr ''Shirt old'')]
       \<and> (\<exists>rd'. rollbackData rb = Some rd' \<and> \<not> canRollback rd')"
proof -
  let ?res = "\<lparr> success = True, message = ''Product successfully rolled back'',
         affectedEntries = [''hist_1700000000000_aaaaaaaaa''], errors = None \<rparr>"
  have h1: "find (\<lambda>x. id_e x = ''hist_1700000000000_aaaaaaaaa'') (getAllEntries [example_entry])
            = Some example_entry"
    by (simp add: getAllEntries_def example_entry_def)
  have h2: "rollbackData example_entry = Some (the (rollbackData example_entry))"
    and h3: "canRollback (the (rollbackData example_entry))"
    by (simp_all add: example_entry_def)
  have h4: "executeRollback remote_ok example_entry [example_entry] = Inr ?res"
    by (simp add: executeRollback_def executeApiRollback_def rollback_call_def remote_ok_def
        example_entry_def)
  have h5: "success ?res" by simp
  from rollback_appends_swapped_entry [OF h1 h2 h3 h4 h5, of "example_stamps 7"]
  obtain rb where
    "rollbackOperation remote_ok (example_stamps 7) ''hist_1700000000000_aaaaaaaaa'' [example_entry]
       = (?res, take MAX_ENTRIES [rb, example_entry])"
    "action (operationData rb) = ''rollback''"
    "oldValues (operationData rb) = newValues (operationData example_entry)"
    "newValues (operationData rb) = oldValues (operationData example_entry)"
    "\<exists>rd'. rollbackData rb = Some rd' \<and> \<not> canRollback rd'"
    by blast
  then show ?thesis
    by (intro exI [of _ rb]) (simp add: MAX_ENTRIES_def example_entry_def)
qed

text \<open>
  C7. When no entry has the id, or the entry found has no rollback data or
  \<open>canRollback = false\<close>, or its rollback type is \<open>file_restore\<close>, \<open>rollbackOperation\<close>
  returns a result with \<open>success = false\<close> and the history is what it was: no entry is
  added. The function returns a result in every case; the error \<open>executeFileRollback\<close>
  throws is caught.
\<close>

theorem rollback_ineligible_no_change:
  assumes "find (\<lambda>x. id_e x = entryId) (getAllEntries s) = None
         \<or> (\<exists>e. find (\<lambda>x. id_e x = entryId) (getAllEntries s) = Some e \<and>
                (rollbackData e = None \<or>
                 (\<exists>rd. rollbackData e = Some rd \<and> (\<not> canRollback rd \<or> rollbackType rd = file_restore))))"
  shows "success (fst (rollbackOperation rem st entryId s)) = False
       \<and> snd (rollbackOperation rem st entryId s) = s"
  using assms
  by (auto simp: rollbackOperation_def executeRollback_def executeFileRollback_def
      split: if_splits)

theorem rollback_ineligible_no_change_witness:
  "rollbackOperation remote_ok (example_stamps 7) ''hist_0_missing''
       [example_entry, example_image_entry, example_restorable_entry]
     = (\<lparr> success = False, message = ''History entry not found'', affectedEntries = [], errors = None \<rparr>,
        [example_entry, example_image_entry, example_restorable_entry])
   \<and> rollbackOperation remote_ok (example_stamps 7) ''hist_1700000000001_bbbbbbbbb''
       [example_entry, example_image_entry, example_restorable_entry]
     = (\<lparr> success = False, message = ''This operation cannot be rolled back'', affectedEntries = [], errors = None \<rparr>,
        [example_entry, example_image_entry, example_restorable_entry])
   \<and> rollbackOperation remote_ok (example_stamps 7) ''hist_1700000000002_ccccccccc''
       [example_entry, example_image_entry, example_restorable_entry]
     = (\<lparr> success = False, message = ''File rollback not yet implemented'', affectedEntries = [], errors = None \<rparr>,
        [example_entry, example_image_entry, example_restorable_entry])"
  using rollback_ineligible_no_change [of "''hist_0_missing''"
          "[example_entry, example_image_entry, example_restorable_entry]" remote_ok "example_stamps 7"]
        rollback_ineligible_no_change [of "''hist_1700000000001_bbbbbbbbb''"
          "[example_entry, example_image_entry, example_restorable_entry]" remote_ok "example_stamps 7"]
        rollback_ineligible_no_change [of "''hist_1700000000002_ccccccccc''"
          "[example_entry, example_image_entry, example_restorable_entry]" remote_ok "example_stamps 7"]
  by (simp add: rollbackOperation_def getAllEntries_def example_entry_def example_image_entry_def
      example_restorable_entry_def executeRollback_def executeFileRollback_def)



section \<open>Import\<close>



section \<open>The price rule\<close>









section \<open>The bulk discount run\<close>

subsection \<open>Cutting the selection into groups\<close>

lemma n_batches_le: "n_batches n \<le> j \<longleftrightarrow> n \<le> j * batchSize"
  by (auto simp: n_batches_def batchSize_def)

lemma n_batches_gt: "j < n_batches n \<longleftrightarrow> j * batchSize < n"
  using n_batches_le [of n j] by auto

lemma make_batches_from:
  "make_batches (j * batchSize) xs bs = bs @ map (batch_at xs) [j ..< n_batches (length xs)]"
proof (induction "n_batches (length xs) - j" arbitrary: j bs)
  case 0
  then have "n_batches (length xs) \<le> j" by simp
  then have "\<not> j * batchSize < length xs" by (simp add: n_batches_le)
  then show ?case
    using \<open>n_batches (length xs) \<le> j\<close>
    by (subst make_batches.simps) simp
next
  case (Suc d)
  then have j: "j < n_batches (length xs)" by simp
  then have lt: "j * batchSize < length xs" by (simp add: n_batches_gt)
  have d: "d = n_batches (length xs) - Suc j" using Suc(2) by simp
  have "make_batches (j * batchSize) xs bs =
        make_batches (Suc j * batchSize) xs (bs @ [batch_at xs j])"
    using lt by (subst make_batches.simps) (simp add: batch_at_def add.commute)
  also have "\<dots> = (bs @ [batch_at xs j]) @ map (batch_at xs) [Suc j ..< n_batches (length xs)]"
    using d by (rule Suc(1))
  also have "\<dots> = bs @ map (batch_at xs) [j ..< n_batches (length xs)]"
    using j by (simp add: upt_conv_Cons)
  finally show ?case .
qed

lemma make_batches_eq:
  "make_batches 0 xs [] = map (batch_at xs) [0 ..< n_batches (length xs)]"
  using make_batches_from [of 0 xs "[]"] by simp

lemma length_batch_at: "length (batch_at xs j) = min batchSize (length xs - j * batchSize)"
  by (simp add: batch_at_def slice_def)

lemma concat_batches_from:
  "concat (map (batch_at xs) [j ..< n_batches (length xs)]) = drop (j * batchSize) xs"
proof (induction "n_batches (length xs) - j" arbitrary: j)
  case 0
  then have "n_batches (length xs) \<le> j" by simp
  then show ?case by (simp add: n_batches_le)
next
  case (Suc d)
  then have j: "j < n_batches (length xs)" by simp
  have d: "d = n_batches (length xs) - Suc j" using Suc(2) by simp
  have "concat (map (batch_at xs) [j ..< n_batches (length xs)]) =
        batch_at xs j @ concat (map (batch_at xs) [Suc j ..< n_batches (length xs)])"
    using j by (simp add: upt_conv_Cons)
  also have "\<dots> = take batchSize (drop (j * batchSize) xs) @ drop (Suc j * batchSize) xs"
    using Suc(1) [OF d] by (simp add: batch_at_def slice_def)
  also have "\<dots> = take batchSize (drop (j * batchSize) xs) @
                  drop batchSize (drop (j * batchSize) xs)"
    by (simp add: add.commute)
  also have "\<dots> = drop (j * batchSize) xs"
    by (rule append_take_drop_id)
  finally show ?case .
qed

lemma zip_batch:
  "zip [j * batchSize ..< j * batchSize + length (batch_at xs j)] (batch_at xs j) =
   map (\<lambda>i. (i, xs ! i)) [j * batchSize ..< min (j * batchSize + batchSize) (length xs)]"
  by (rule nth_equalityI) (auto simp: length_batch_at batch_at_def slice_def)

subsection \<open>Counting the results\<close>

lemma tally_allResults:
  "allResults (tally_results T rs st) = allResults st @ map fst rs"
  by (induction rs arbitrary: st) (auto simp: Let_def)

lemma tally_completed:
  "completed (tally_results T rs st) = completed st + length rs"
  by (induction rs arbitrary: st) (auto simp: Let_def)

lemma tally_successful:
  "successful (tally_results T rs st) = successful st + length (filter (\<lambda>r. fst (snd r)) rs)"
  by (induction rs arbitrary: st) (auto simp: Let_def)

lemma tally_failed:
  "failed (tally_results T rs st) = failed st + length (filter (\<lambda>r. \<not> fst (snd r)) rs)"
  by (induction rs arbitrary: st) (auto simp: Let_def)

lemma tally_trace: "trace (tally_results T rs st) = trace st"
  by (induction rs arbitrary: st) (auto simp: Let_def)

lemma tally_issued: "issued (tally_results T rs st) = issued st"
  by (induction rs arbitrary: st) (auto simp: Let_def)

lemma tally_results_field:
  "results (tally_results T rs st) = (if rs = [] then results st else allResults st @ map fst rs)"
  by (induction rs arbitrary: st) (auto simp: Let_def)

subsection \<open>One group, and the loop over the groups\<close>

lemma upt_split: "a \<le> b \<Longrightarrow> b \<le> c \<Longrightarrow> [a ..< c] = [a ..< b] @ [b ..< c]"
  by (metis le_Suc_ex upt_add_eq_append)

lemma batch_results_eq:
  assumes "issued st = j * batchSize"
  shows "map (\<lambda>(k, vid). process_item api vs dp ex k vid)
           (zip [issued st ..< issued st + length (batch_at xs j)] (batch_at xs j)) =
         map (\<lambda>i. process_item api vs dp ex i (xs ! i))
           [j * batchSize ..< min (j * batchSize + batchSize) (length xs)]"
  unfolding assms zip_batch by simp

lemma batch_requests_eq:
  assumes "issued st = j * batchSize"
  shows "map (\<lambda>(k, vid). Request k vid)
           (zip [issued st ..< issued st + length (batch_at xs j)] (batch_at xs j)) =
         map (\<lambda>i. Request i (xs ! i))
           [j * batchSize ..< min (j * batchSize + batchSize) (length xs)]"
  unfolding assms zip_batch by simp

lemma process_batch_fields:
  assumes j: "j < n_batches (length xs)" and i: "issued st = j * batchSize"
  shows "allResults (process_batch api vs dp ex T nb j (batch_at xs j) st) =
           allResults st @ map (\<lambda>i. fst (process_item api vs dp ex i (xs ! i)))
             [j * batchSize ..< min (j * batchSize + batchSize) (length xs)]"
    and "successful (process_batch api vs dp ex T nb j (batch_at xs j) st) =
           successful st + length (filter (\<lambda>i. fst (snd (process_item api vs dp ex i (xs ! i))))
             [j * batchSize ..< min (j * batchSize + batchSize) (length xs)])"
    and "failed (process_batch api vs dp ex T nb j (batch_at xs j) st) =
           failed st + length (filter (\<lambda>i. \<not> fst (snd (process_item api vs dp ex i (xs ! i))))
             [j * batchSize ..< min (j * batchSize + batchSize) (length xs)])"
    and "issued (process_batch api vs dp ex T nb j (batch_at xs j) st) =
           min (j * batchSize + batchSize) (length xs)"
    and "trace (process_batch api vs dp ex T nb j (batch_at xs j) st) =
           trace st @ map (\<lambda>i. Request i (xs ! i))
             [j * batchSize ..< min (j * batchSize + batchSize) (length xs)] @
           [Joined j] @ (if j < nb - 1 then [Sleep windowDelayMs] else [])"
    and "results (process_batch api vs dp ex T nb j (batch_at xs j) st) =
           allResults (process_batch api vs dp ex T nb j (batch_at xs j) st)"
proof -
  have lt: "j * batchSize < length xs"
    using j by (simp add: n_batches_gt)
  have ne: "[j * batchSize ..< min (j * batchSize + batchSize) (length xs)] \<noteq> []"
    using lt by (auto simp: batchSize_def)
  have len: "j * batchSize + length (batch_at xs j) = min (j * batchSize + batchSize) (length xs)"
    using lt by (simp add: length_batch_at)
  note br = batch_results_eq [OF i, of api vs dp ex xs]
  note rq = batch_requests_eq [OF i, of xs]
  show "allResults (process_batch api vs dp ex T nb j (batch_at xs j) st) =
           allResults st @ map (\<lambda>i. fst (process_item api vs dp ex i (xs ! i)))
             [j * batchSize ..< min (j * batchSize + batchSize) (length xs)]"
    by (simp add: process_batch_def Let_def tally_allResults br o_def)
  show "successful (process_batch api vs dp ex T nb j (batch_at xs j) st) =
           successful st + length (filter (\<lambda>i. fst (snd (process_item api vs dp ex i (xs ! i))))
             [j * batchSize ..< min (j * batchSize + batchSize) (length xs)])"
    by (simp add: process_batch_def Let_def tally_successful br filter_map o_def)
  show "failed (process_batch api vs dp ex T nb j (batch_at xs j) st) =
           failed st + length (filter (\<lambda>i. \<not> fst (snd (process_item api vs dp ex i (xs ! i))))
             [j * batchSize ..< min (j * batchSize + batchSize) (length xs)])"
    by (simp add: process_batch_def Let_def tally_failed br filter_map o_def)
  show "issued (process_batch api vs dp ex T nb j (batch_at xs j) st) =
           min (j * batchSize + batchSize) (length xs)"
    using len by (simp add: process_batch_def Let_def tally_issued i)
  show "trace (process_batch api vs dp ex T nb j (batch_at xs j) st) =
           trace st @ map (\<lambda>i. Request i (xs ! i))
             [j * batchSize ..< min (j * batchSize + batchSize) (length xs)] @
           [Joined j] @ (if j < nb - 1 then [Sleep windowDelayMs] else [])"
    by (simp add: process_batch_def Let_def tally_trace rq)
  show "results (process_batch api vs dp ex T nb j (batch_at xs j) st) =
           allResults (process_batch api vs dp ex T nb j (batch_at xs j) st)"
    using ne by (simp add: process_batch_def Let_def tally_results_field tally_allResults br)
qed

lemma process_batches_fields:
  assumes b: "batches = map (batch_at xs) [0 ..< n_batches (length xs)]"
    and j: "j \<le> n_batches (length xs)"
    and i: "issued st = min (j * batchSize) (length xs)"
  shows "allResults (process_batches api vs dp ex T batches j st) =
           allResults st @ map (\<lambda>i. fst (process_item api vs dp ex i (xs ! i)))
             [min (j * batchSize) (length xs) ..< length xs]
       \<and> successful (process_batches api vs dp ex T batches j st) =
           successful st + length (filter (\<lambda>i. fst (snd (process_item api vs dp ex i (xs ! i))))
             [min (j * batchSize) (length xs) ..< length xs])
       \<and> failed (process_batches api vs dp ex T batches j st) =
           failed st + length (filter (\<lambda>i. \<not> fst (snd (process_item api vs dp ex i (xs ! i))))
             [min (j * batchSize) (length xs) ..< length xs])
       \<and> trace (process_batches api vs dp ex T batches j st) =
           trace st @ concat (map (group_events xs) [j ..< n_batches (length xs)])
       \<and> results (process_batches api vs dp ex T batches j st) =
           (if j < n_batches (length xs)
            then allResults (process_batches api vs dp ex T batches j st) else results st)"
  using j i
proof (induction "n_batches (length xs) - j" arbitrary: j st)
  case 0
  then have "n_batches (length xs) = j" by simp
  then have e: "\<not> j < length batches" "length xs \<le> j * batchSize"
    using n_batches_le [of "length xs" j] by (simp_all add: b)
  show ?case
    using e \<open>n_batches (length xs) = j\<close>
    by (subst (1 2 3 4 5 6) process_batches.simps) simp
next
  case (Suc d)
  let ?nb = "n_batches (length xs)"
  let ?hi = "min (j * batchSize + batchSize) (length xs)"
  from Suc(2) have jl: "j < ?nb" by simp
  then have lt: "j * batchSize < length xs" by (simp add: n_batches_gt)
  have lb: "length batches = ?nb" and nth: "batches ! j = batch_at xs j"
    using jl by (simp_all add: b)
  have iss: "issued st = j * batchSize"
    using Suc(4) lt by simp
  let ?st1 = "process_batch api vs dp ex T ?nb j (batch_at xs j) st"
  note pb = process_batch_fields [OF jl iss, of api vs dp ex T ?nb]
  have step: "process_batches api vs dp ex T batches j st =
              process_batches api vs dp ex T batches (Suc j) ?st1"
    using jl by (subst process_batches.simps) (simp add: lb nth)
  have d: "d = ?nb - Suc j" using Suc(2) by simp
  have sj: "Suc j \<le> ?nb" using jl by simp
  have i1: "issued ?st1 = min (Suc j * batchSize) (length xs)"
    by (simp add: pb(4) add.commute)
  note IH = Suc(1) [OF d sj i1]
  have hi: "min (Suc j * batchSize) (length xs) = ?hi"
    by (simp add: add.commute)
  have lo: "min (j * batchSize) (length xs) = j * batchSize"
    using lt by simp
  have split: "[j * batchSize ..< length xs] = [j * batchSize ..< ?hi] @ [?hi ..< length xs]"
    using lt by (intro upt_split) simp_all
  have sl: "(j < ?nb - 1) = (j + 1 < ?nb)" by auto
  have ge: "group_events xs j = map (\<lambda>i. Request i (xs ! i)) [j * batchSize ..< ?hi] @
              [Joined j] @ (if j < ?nb - 1 then [Sleep windowDelayMs] else [])"
    by (simp only: group_events_def sl)
  have up: "[j ..< ?nb] = j # [Suc j ..< ?nb]"
    using jl by (rule upt_conv_Cons)
  have r: "results (process_batches api vs dp ex T batches (Suc j) ?st1) =
           allResults (process_batches api vs dp ex T batches (Suc j) ?st1)"
  proof (cases "Suc j < ?nb")
    case True
    then show ?thesis using IH by simp
  next
    case False
    then have "\<not> Suc j < length batches" by (simp add: lb)
    then have "process_batches api vs dp ex T batches (Suc j) ?st1 = ?st1"
      by (subst process_batches.simps) simp
    then show ?thesis by (simp add: pb(6))
  qed
  note IH' = IH [unfolded hi]
  let ?f = "\<lambda>i. process_item api vs dp ex i (xs ! i)"
  let ?fin = "process_batches api vs dp ex T batches (Suc j) ?st1"
  have c1: "allResults ?fin = allResults st @ map (\<lambda>i. fst (?f i)) [j * batchSize ..< length xs]"
    unfolding split using IH' by (simp add: pb(1))
  have c2: "successful ?fin = successful st +
              length (filter (\<lambda>i. fst (snd (?f i))) [j * batchSize ..< length xs])"
    unfolding split using IH' by (simp add: pb(2))
  have c3: "failed ?fin = failed st +
              length (filter (\<lambda>i. \<not> fst (snd (?f i))) [j * batchSize ..< length xs])"
    unfolding split using IH' by (simp add: pb(3))
  have c4: "trace ?fin = trace st @ concat (map (group_events xs) [j ..< ?nb])"
    unfolding up using IH' by (simp add: pb(5) ge)
  show ?case
    unfolding step lo using c1 c2 c3 c4 r jl by simp
qed

subsection \<open>The whole run\<close>



lemma n_batches_pos: "0 < n \<Longrightarrow> 0 < n_batches n"
  by (simp add: n_batches_gt)

lemma applyDiscount_valid:
  assumes "valid_run env c"
  shows "applyDiscount env c =
     (let totalCount = length (selectedVariants c);
          st = process_batches (env_api env) (allVariants c) (discountPercentage c)
                 (expiryDate c) totalCount (make_batches 0 (selectedVariants c) []) 0
                 \<lparr> allResults = [], completed = 0, successful = 0, failed = 0,
                   processProgress = \<lparr> p_total = totalCount, p_completed = 0, p_successful = 0,
                     p_failed = 0, p_current = ''Starting parallel processing...'' \<rparr>,
                   results = [], issued = 0, trace = events c \<rparr>;
          affectedItems = map (history_item (allVariants c) (discountPercentage c))
                            (filter dr_success (allResults st))
      in c\<lparr> selectedVariants := [],
            ui_message := Some (final_message env c (successful st) (failed st)),
            ui_results := results st,
            ui_progress := \<lparr> p_total = totalCount, p_completed = totalCount,
              p_successful = successful st, p_failed = failed st,
              p_current = ''All '' @ string_of_nat totalCount @ '' items processed! '' @
                string_of_nat (successful st) @ '' successful, '' @
                string_of_nat (failed st) @ '' failed'' \<rparr>,
            isApplying := False,
            isProcessing := True,
            history :=
              (if length affectedItems > 0
               then snd (createBulkHistoryEntry (env_stamps env) bulk_discount Pricing
                      (''Bulk Discount Applied: '' @ env_num_str env (discountPercentage c) @ ''% off'')
                      affectedItems
                      (Some (JObj [(''variantIds'', JArr (map JStr (selectedVariants c))),
                                   (''originalDiscountPercentage'', num_json (discountPercentage c)),
                                   (''expiryDate'', if truthy_str (expiryDate c)
                                                    then JStr (expiryDate c) else JNull)]))
                      (history c))
               else history c),
            events := trace st @ [RefreshProducts] \<rparr>)"
proof -
  have g1: "\<not> length (selectedVariants c) = 0"
    using assms by (simp add: valid_run_def)
  have g2: "\<not> (case discountPercentage c of None \<Rightarrow> False | Some d \<Rightarrow> d \<le> 0 \<or> d \<ge> 100)"
    using assms by (auto simp: valid_run_def split: option.splits)
  have g3: "\<not> (truthy_str (expiryDate c) \<and> env_expiry_passed env)"
    using assms by (auto simp: valid_run_def truthy_str_def)
  show ?thesis
    unfolding applyDiscount_def using g1 g2 g3 by (simp only: if_False Let_def)
qed

lemma run_fields:
  assumes ne: "xs \<noteq> []"
  shows "allResults (process_batches api vs dp ex T (make_batches 0 xs []) 0
            \<lparr> allResults = [], completed = 0, successful = 0, failed = 0, processProgress = pp,
              results = [], issued = 0, trace = tr \<rparr>) =
         map (\<lambda>i. fst (process_item api vs dp ex i (xs ! i))) [0 ..< length xs]"
    and "successful (process_batches api vs dp ex T (make_batches 0 xs []) 0
            \<lparr> allResults = [], completed = 0, successful = 0, failed = 0, processProgress = pp,
              results = [], issued = 0, trace = tr \<rparr>) =
         length (filter (\<lambda>i. fst (snd (process_item api vs dp ex i (xs ! i)))) [0 ..< length xs])"
    and "failed (process_batches api vs dp ex T (make_batches 0 xs []) 0
            \<lparr> allResults = [], completed = 0, successful = 0, failed = 0, processProgress = pp,
              results = [], issued = 0, trace = tr \<rparr>) =
         length (filter (\<lambda>i. \<not> fst (snd (process_item api vs dp ex i (xs ! i)))) [0 ..< length xs])"
    and "trace (process_batches api vs dp ex T (make_batches 0 xs []) 0
            \<lparr> allResults = [], completed = 0, successful = 0, failed = 0, processProgress = pp,
              results = [], issued = 0, trace = tr \<rparr>) = tr @ run_events xs"
    and "results (process_batches api vs dp ex T (make_batches 0 xs []) 0
            \<lparr> allResults = [], completed = 0, successful = 0, failed = 0, processProgress = pp,
              results = [], issued = 0, trace = tr \<rparr>) =
         map (\<lambda>i. fst (process_item api vs dp ex i (xs ! i))) [0 ..< length xs]"
proof -
  let ?st0 = "\<lparr> allResults = [], completed = 0, successful = 0, failed = 0, processProgress = pp,
              results = [], issued = 0, trace = tr \<rparr>"
  have i0: "issued ?st0 = min (0 * batchSize) (length xs)" by simp
  have pos: "0 < n_batches (length xs)"
    using ne by (simp add: n_batches_pos)
  note F = process_batches_fields [OF make_batches_eq le0 i0, of api vs dp ex T]
  show "allResults (process_batches api vs dp ex T (make_batches 0 xs []) 0 ?st0) =
         map (\<lambda>i. fst (process_item api vs dp ex i (xs ! i))) [0 ..< length xs]"
    using F by simp
  then show "results (process_batches api vs dp ex T (make_batches 0 xs []) 0 ?st0) =
         map (\<lambda>i. fst (process_item api vs dp ex i (xs ! i))) [0 ..< length xs]"
    using F pos by simp
  show "successful (process_batches api vs dp ex T (make_batches 0 xs []) 0 ?st0) =
         length (filter (\<lambda>i. fst (snd (process_item api vs dp ex i (xs ! i)))) [0 ..< length xs])"
    using F by simp
  show "failed (process_batches api vs dp ex T (make_batches 0 xs []) 0 ?st0) =
         length (filter (\<lambda>i. \<not> fst (snd (process_item api vs dp ex i (xs ! i)))) [0 ..< length xs])"
    using F by simp
  show "trace (process_batches api vs dp ex T (make_batches 0 xs []) 0 ?st0) = tr @ run_events xs"
    using F by (simp add: run_events_def)
qed

lemma sleeps_of_group:
  "filter is_sleep (group_events xs j) =
     (if j + 1 < n_batches (length xs) then [Sleep windowDelayMs] else [])"
  by (simp add: group_events_def is_sleep_def filter_map o_def)

lemma sleeps_upto:
  "concat (map (\<lambda>j. if Suc j < n then [x] else []) [0 ..< m]) = replicate (min m (n - 1)) x"
proof (induction m)
  case 0
  then show ?case by simp
next
  case (Suc m)
  show ?case
  proof (cases "m + 1 < n")
    case True
    then have "min (Suc m) (n - 1) = Suc (min m (n - 1))" by simp
    then show ?thesis using True Suc by (simp add: replicate_append_same)
  next
    case False
    then have "min (Suc m) (n - 1) = min m (n - 1)" by simp
    then show ?thesis using False Suc by simp
  qed
qed

lemma sleeps_of_run:
  "filter is_sleep (run_events xs) = replicate (n_batches (length xs) - 1) (Sleep windowDelayMs)"
proof -
  have "filter is_sleep (run_events xs) =
        concat (map (\<lambda>j. if j + 1 < n_batches (length xs) then [Sleep windowDelayMs] else [])
                  [0 ..< n_batches (length xs)])"
    by (simp add: run_events_def filter_concat o_def sleeps_of_group)
  then show ?thesis
    by (simp add: sleeps_upto)
qed

text \<open>
  C2. For a run that passes the checks at the start of \<open>applyDiscount\<close> (so the
  selection has at least one item), with the group size 2 and the pause of 1100 ms that
  the code fixes. The selection is cut, in its order, into the groups \<open>batch_at xs j\<close> for
  \<open>j\<close> below \<open>n_batches N\<close>, the number \<open>N / batchSize\<close> rounded up; every group but the
  last has exactly \<open>batchSize\<close> items and the last has between 1 and \<open>batchSize\<close>. The
  events of the run are, group after group, the requests of the group, its join, and a
  pause of \<open>windowDelayMs\<close> when another group follows: a group is joined before the next
  one starts, there is one pause between two consecutive groups, and none after the last.
\<close>

theorem groups_and_pauses:
  assumes "valid_run env c"
  shows "make_batches 0 (selectedVariants c) [] =
           map (batch_at (selectedVariants c)) [0 ..< n_batches (length (selectedVariants c))]
       \<and> concat (make_batches 0 (selectedVariants c) []) = selectedVariants c
       \<and> length (make_batches 0 (selectedVariants c) []) = n_batches (length (selectedVariants c))
       \<and> length (selectedVariants c) \<le> n_batches (length (selectedVariants c)) * batchSize
       \<and> (n_batches (length (selectedVariants c)) - 1) * batchSize < length (selectedVariants c)
       \<and> (\<forall>j. j + 1 < n_batches (length (selectedVariants c)) \<longrightarrow>
              length (batch_at (selectedVariants c) j) = batchSize)
       \<and> (\<forall>j. j + 1 = n_batches (length (selectedVariants c)) \<longrightarrow>
              1 \<le> length (batch_at (selectedVariants c) j) \<and>
              length (batch_at (selectedVariants c) j) \<le> batchSize)
       \<and> events (applyDiscount env c) = events c @ run_events (selectedVariants c) @ [RefreshProducts]
       \<and> filter is_sleep (run_events (selectedVariants c)) =
           replicate (n_batches (length (selectedVariants c)) - 1) (Sleep windowDelayMs)
       \<and> batchSize = 2 \<and> windowDelayMs = 1100"
proof -
  let ?xs = "selectedVariants c"
  let ?nb = "n_batches (length ?xs)"
  have ne: "?xs \<noteq> []" using assms by (simp add: valid_run_def)
  have p1: "make_batches 0 ?xs [] = map (batch_at ?xs) [0 ..< ?nb]"
    by (rule make_batches_eq)
  have p2: "concat (make_batches 0 ?xs []) = ?xs"
    unfolding p1 using concat_batches_from [of ?xs 0] by simp
  have p3: "length (make_batches 0 ?xs []) = ?nb"
    unfolding p1 by simp
  have p4: "length ?xs \<le> ?nb * batchSize"
    using n_batches_le [of "length ?xs" ?nb] by simp
  have p5: "(?nb - 1) * batchSize < length ?xs"
    using n_batches_gt [of "?nb - 1" "length ?xs"] n_batches_pos [of "length ?xs"] ne by simp
  have p6: "length (batch_at ?xs j) = batchSize" if "j + 1 < ?nb" for j
    using that n_batches_gt [of "j + 1" "length ?xs"] by (simp add: length_batch_at)
  have p7: "1 \<le> length (batch_at ?xs j) \<and> length (batch_at ?xs j) \<le> batchSize"
    if "j + 1 = ?nb" for j
  proof -
    have "j < ?nb" using that by simp
    then have "j * batchSize < length ?xs" by (simp add: n_batches_gt)
    then show ?thesis by (simp add: length_batch_at batchSize_def)
  qed
  have p8: "events (applyDiscount env c) = events c @ run_events ?xs @ [RefreshProducts]"
    by (simp add: applyDiscount_valid [OF assms] Let_def run_fields(4) [OF ne])
  show ?thesis
    using p1 p2 p3 p4 p5 p6 p7 p8 sleeps_of_run [of ?xs]
    by (simp add: batchSize_def windowDelayMs_def)
qed

theorem groups_and_pauses_witness:
  "valid_run example_env example_component
   \<and> make_batches 0 [''v1'', ''v2'', ''v3'', ''v4'', ''v5''] [] =
       [[''v1'', ''v2''], [''v3'', ''v4''], [''v5'']]
   \<and> events (applyDiscount example_env example_component) =
       [Request 0 ''v1'', Request 1 ''v2'', Joined 0, Sleep 1100,
        Request 2 ''v3'', Request 3 ''v4'', Joined 1, Sleep 1100,
        Request 4 ''v5'', Joined 2, RefreshProducts]"
proof -
  have v: "valid_run example_env example_component"
    by (simp add: valid_run_def example_env_def example_component_def)
  have xs: "selectedVariants example_component = [''v1'', ''v2'', ''v3'', ''v4'', ''v5'']"
    and ev: "events example_component = []"
    by (simp_all add: example_component_def)
  have b: "map (batch_at [''v1'', ''v2'', ''v3'', ''v4'', ''v5''])
             [0 ..< n_batches (length [''v1'', ''v2'', ''v3'', ''v4'', ''v5''])] =
           [[''v1'', ''v2''], [''v3'', ''v4''], [''v5'']]"
    by code_simp
  have r: "run_events [''v1'', ''v2'', ''v3'', ''v4'', ''v5''] =
       [Request 0 ''v1'', Request 1 ''v2'', Joined 0, Sleep 1100,
        Request 2 ''v3'', Request 3 ''v4'', Joined 1, Sleep 1100,
        Request 4 ''v5'', Joined 2]"
    by code_simp
  from groups_and_pauses [OF v] have
    "make_batches 0 (selectedVariants example_component) [] =
       map (batch_at (selectedVariants example_component))
         [0 ..< n_batches (length (selectedVariants example_component))]"
    "events (applyDiscount example_env example_component) =
       events example_component @ run_events (selectedVariants example_component) @ [RefreshProducts]"
    by blast+
  then show ?thesis
    using v unfolding xs ev b r by simp
qed

subsection \<open>Tally and history\<close>






end
